theory Spec2Isabelle
  imports Main
begin

section \<open>Responses and template strings\<close>

text \<open>
  Every controller answers with a JSON envelope and an HTTP status. A failed call is one
  of four shapes: a 400 with a fixed or interpolated message, a 400 built from a Mongoose
  \<open>ValidationError\<close> (its messages joined by a comma), a 404, or the 500 of the last
  \<open>catch\<close> branch. A successful call is \<open>Inr\<close> of what it returns.
\<close>

datatype failure =
    BadRequest string
  | ValidationFailed "string list"
  | NotFound string
  | ServerError

fun http_status :: "failure \<Rightarrow> nat" where
  "http_status (BadRequest m) = 400"
| "http_status (ValidationFailed ms) = 400"
| "http_status (NotFound m) = 404"
| "http_status ServerError = 500"

text \<open>Decimal rendering of a number inside a template literal.\<close>

definition digit_char :: "nat \<Rightarrow> char" where
  "digit_char d = ''0123456789'' ! d"

fun show_nat :: "nat \<Rightarrow> string" where
  "show_nat n = (if n < 10 then [digit_char n] else show_nat (n div 10) @ [digit_char (n mod 10)])"

declare show_nat.simps [simp del]

definition show_int :: "int \<Rightarrow> string" where
  "show_int i = (if i < 0 then CHR ''-'' # show_nat (nat (- i)) else show_nat (nat i))"

text \<open>\<open>s.slice(-6)\<close>: the last six characters, the whole string when it is shorter.\<close>

definition slice_last6 :: "string \<Rightarrow> string" where
  "slice_last6 s = drop (length s - 6) s"

text \<open>
  Documents live in lists, one list per collection. \<open>findOne\<close> returns the first
  document that matches; \<open>doc.save()\<close> writes the changed document back in its place,
  \<open>doc.deleteOne()\<close> removes it. Documents already stored satisfy their schema, so a
  \<open>save\<close> that assigns only values the controller has checked does not throw.
\<close>

fun updateFirst :: "('a \<Rightarrow> bool) \<Rightarrow> ('a \<Rightarrow> 'a) \<Rightarrow> 'a list \<Rightarrow> 'a list" where
  "updateFirst P f [] = []"
| "updateFirst P f (x # xs) = (if P x then f x # xs else x # updateFirst P f xs)"

fun removeFirst :: "('a \<Rightarrow> bool) \<Rightarrow> 'a list \<Rightarrow> 'a list" where
  "removeFirst P [] = []"
| "removeFirst P (x # xs) = (if P x then xs else x # removeFirst P xs)"

definition freshId :: "nat list \<Rightarrow> nat" where
  "freshId ids = Suc (foldr max ids 0)"

text \<open>\<open>messages.join(', ')\<close>.\<close>

fun joinComma :: "string list \<Rightarrow> string" where
  "joinComma [] = []"
| "joinComma [m] = m"
| "joinComma (m # ms) = m @ '', '' @ joinComma ms"

section \<open>Pool module\<close>

text \<open>
  Dates are epoch milliseconds. \<open>setHours(0, 0, 0, 0)\<close> and \<open>setHours(23, 59, 59, 999)\<close>
  are taken in UTC. Quantities and prices are integers (\<open>parseInt\<close> of the request's
  \<open>persons\<close>; whole currency units as in the seed data).
\<close>

definition startOfDay :: "int \<Rightarrow> int" where
  "startOfDay t = t - t mod 86400000"

definition endOfDay :: "int \<Rightarrow> int" where
  "endOfDay t = startOfDay t + 86399999"

record time_slot =
  ts_id :: nat
  slotId :: string
  label :: string
  slot_value :: string
  startTime :: string
  endTime :: string
  maxCapacity :: int
  currentBookings :: int
  ts_isActive :: bool

record ticket_price =
  tp_passType :: string
  tp_price :: int
  tp_description :: string
  maxPersons :: int
  tp_isActive :: bool

record pool_booking =
  pb_id :: nat
  pb_customerName :: string
  pb_email :: string
  pb_phone :: string
  pb_date :: int
  pb_timeSlot :: string
  pb_passType :: string
  pb_persons :: int
  pb_amount :: int
  pb_paymentStatus :: string
  pb_notes :: string
  pb_bookingNumber :: string
  pb_createdBy :: nat

record pool_db =
  slots :: "time_slot list"
  tickets :: "ticket_price list"
  bookings :: "pool_booking list"

text \<open>
  The body of \<open>POST /api/pool/bookings\<close>. An absent or empty string field is \<open>''''\<close>,
  an absent date is \<open>None\<close>, absent persons are \<open>0\<close>: the values JavaScript treats as
  false in the required-field test.
\<close>

record pool_request =
  rq_customerName :: string
  rq_email :: string
  rq_phone :: string
  rq_date :: "int option"
  rq_timeSlot :: string
  rq_passType :: string
  rq_persons :: int
  rq_paymentStatus :: string
  rq_notes :: string

definition findSlot :: "string \<Rightarrow> time_slot list \<Rightarrow> time_slot option" where
  "findSlot v ss = find (\<lambda>s. slot_value s = v) ss"

text \<open>
  \<open>Pool.find({ date: { $gte, $lte }, timeSlot, paymentStatus: { $ne: 'cancelled' } })\<close>,
  with the optional \<open>_id: { $ne }\<close> of the update paths, and the \<open>reduce\<close> over it.
\<close>

definition existingBookings :: "nat option \<Rightarrow> int \<Rightarrow> string \<Rightarrow> pool_booking list \<Rightarrow> pool_booking list" where
  "existingBookings skip d v bs =
     filter (\<lambda>b. (case skip of None \<Rightarrow> True | Some i \<Rightarrow> pb_id b \<noteq> i)
                 \<and> startOfDay d \<le> pb_date b \<and> pb_date b \<le> endOfDay d
                 \<and> pb_timeSlot b = v
                 \<and> pb_paymentStatus b \<noteq> ''cancelled'') bs"

definition totalBookedPersons :: "pool_booking list \<Rightarrow> int" where
  "totalBookedPersons bs = foldl (\<lambda>sum b. sum + pb_persons b) 0 bs"

definition findTicket :: "string \<Rightarrow> ticket_price list \<Rightarrow> ticket_price option" where
  "findTicket p ts = find (\<lambda>t. tp_passType t = p \<and> tp_isActive t) ts"

text \<open>
  \<open>exports.createBooking\<close> of the pool controller. The messages of the Pool schema's
  validators that fail on the new document are the parameter \<open>validate\<close> (empty when
  the document is valid); the \<open>catch\<close> block answers a \<open>ValidationError\<close> with a 400.
  \<open>bookingNumber\<close> has a unique index, and a duplicate ends in the 500 branch with
  nothing stored. \<open>now\<close> is \<open>Date.now()\<close>, \<open>user\<close> is \<open>req.user._id\<close>. A date that
  is present is taken to parse.
\<close>

definition createBooking ::
  "(pool_booking \<Rightarrow> string list) \<Rightarrow> int \<Rightarrow> nat \<Rightarrow> pool_request \<Rightarrow> pool_db
     \<Rightarrow> pool_db \<times> (failure + pool_booking)" where
  "createBooking validate now user rq db =
    (if rq_customerName rq = [] \<or> rq_email rq = [] \<or> rq_phone rq = [] \<or> rq_date rq = None
        \<or> rq_timeSlot rq = [] \<or> rq_passType rq = [] \<or> rq_persons rq = 0
     then (db, Inl (BadRequest ''Please provide all required fields''))
     else (case findSlot (rq_timeSlot rq) (slots db) of
       None \<Rightarrow> (db, Inl (BadRequest ''Selected time slot is not available''))
     | Some slot \<Rightarrow>
        (if \<not> ts_isActive slot then (db, Inl (BadRequest ''Selected time slot is not available''))
         else
          (let selectedDate = startOfDay (the (rq_date rq));
               total = totalBookedPersons
                         (existingBookings None selectedDate (rq_timeSlot rq) (bookings db));
               availableSpots = maxCapacity slot - total
           in (if availableSpots < rq_persons rq
             then (db, Inl (BadRequest (''Only '' @ show_int availableSpots
                                          @ '' spots available in this slot'')))
             else (case findTicket (rq_passType rq) (tickets db) of
               None \<Rightarrow> (db, Inl (BadRequest ''Selected pass type is not available''))
             | Some ticket \<Rightarrow>
                (if rq_persons rq > maxPersons ticket
                 then (db, Inl (BadRequest (''Maximum '' @ show_int (maxPersons ticket)
                                  @ '' persons allowed for '' @ rq_passType rq @ '' pass'')))
                 else
                  (let amount = (if rq_passType rq = ''family'' then tp_price ticket
                                 else tp_price ticket * rq_persons rq);
                       bookingNumber = ''PB-'' @ slice_last6 (show_int now) @ ''-''
                                         @ show_int (int (length (bookings db)) + 1);
                       booking = \<lparr> pb_id = freshId (map pb_id (bookings db)),
                                   pb_customerName = rq_customerName rq,
                                   pb_email = rq_email rq,
                                   pb_phone = rq_phone rq,
                                   pb_date = selectedDate,
                                   pb_timeSlot = rq_timeSlot rq,
                                   pb_passType = rq_passType rq,
                                   pb_persons = rq_persons rq,
                                   pb_amount = amount,
                                   pb_paymentStatus = (if rq_paymentStatus rq = [] then ''pending''
                                                       else rq_paymentStatus rq),
                                   pb_notes = rq_notes rq,
                                   pb_bookingNumber = bookingNumber,
                                   pb_createdBy = user \<rparr>
                   in (if validate booking \<noteq> []
                       then (db, Inl (ValidationFailed (validate booking)))
                       else (if bookingNumber \<in> set (map pb_bookingNumber (bookings db))
                       then (db, Inl ServerError)
                       else (db \<lparr> bookings := bookings db @ [booking],
                                   slots := updateFirst (\<lambda>s. slot_value s = rq_timeSlot rq)
                                              (\<lambda>s. s \<lparr> currentBookings := total + rq_persons rq \<rparr>)
                                              (slots db) \<rparr>,
                             Inr booking)))))))))))"

text \<open>\<open>exports.deleteBooking\<close> of the pool controller.\<close>

definition deleteBooking :: "nat \<Rightarrow> pool_db \<Rightarrow> pool_db \<times> (failure + unit)" where
  "deleteBooking i db =
    (case find (\<lambda>b. pb_id b = i) (bookings db) of
       None \<Rightarrow> (db, Inl (NotFound ''Booking not found''))
     | Some booking \<Rightarrow>
        (let slots' = (case findSlot (pb_timeSlot booking) (slots db) of
                         None \<Rightarrow> slots db
                       | Some slot \<Rightarrow>
                           updateFirst (\<lambda>s. slot_value s = pb_timeSlot booking)
                             (\<lambda>s. s \<lparr> currentBookings :=
                                         max 0 (currentBookings slot - pb_persons booking) \<rparr>)
                             (slots db))
         in (db \<lparr> slots := slots', bookings := removeFirst (\<lambda>b. pb_id b = i) (bookings db) \<rparr>,
             Inr ())))"

text \<open>
  \<open>exports.updatePaymentStatus\<close> of the pool controller. The slot is saved before the
  booking; \<open>booking.save()\<close> validates the document, and this \<open>catch\<close> block answers a
  \<open>ValidationError\<close> with the 500.
\<close>

definition updatePaymentStatus ::
  "(pool_booking \<Rightarrow> string list) \<Rightarrow> nat \<Rightarrow> string \<Rightarrow> pool_db
     \<Rightarrow> pool_db \<times> (failure + pool_booking)" where
  "updatePaymentStatus validate i paymentStatus db =
    (if paymentStatus = [] \<or> paymentStatus \<notin> set [''paid'', ''pending'', ''cancelled'']
     then (db, Inl (BadRequest ''Invalid payment status''))
     else (case find (\<lambda>b. pb_id b = i) (bookings db) of
       None \<Rightarrow> (db, Inl (NotFound ''Booking not found''))
     | Some booking \<Rightarrow>
        (let finish = (\<lambda>slots'.
               (if validate (booking \<lparr> pb_paymentStatus := paymentStatus \<rparr>) \<noteq> []
                then (db \<lparr> slots := slots' \<rparr>, Inl ServerError)
                else (db \<lparr> slots := slots',
                           bookings := updateFirst (\<lambda>b. pb_id b = i)
                                         (\<lambda>b. b \<lparr> pb_paymentStatus := paymentStatus \<rparr>)
                                         (bookings db) \<rparr>,
                      Inr (booking \<lparr> pb_paymentStatus := paymentStatus \<rparr>))))
         in (if paymentStatus = ''cancelled'' \<and> pb_paymentStatus booking \<noteq> ''cancelled''
             then (case findSlot (pb_timeSlot booking) (slots db) of
                     None \<Rightarrow> finish (slots db)
                   | Some slot \<Rightarrow>
                       finish (updateFirst (\<lambda>s. slot_value s = pb_timeSlot booking)
                                 (\<lambda>s. s \<lparr> currentBookings :=
                                             max 0 (currentBookings slot - pb_persons booking) \<rparr>)
                                 (slots db)))
             else (if pb_paymentStatus booking = ''cancelled'' \<and> paymentStatus \<noteq> ''cancelled''
                   then (case findSlot (pb_timeSlot booking) (slots db) of
                           None \<Rightarrow> finish (slots db)
                         | Some slot \<Rightarrow>
                            (let total = totalBookedPersons
                                           (existingBookings (Some (pb_id booking))
                                              (startOfDay (pb_date booking))
                                              (pb_timeSlot booking) (bookings db));
                                 availableSpots = maxCapacity slot - total
                             in (if availableSpots < pb_persons booking
                                 then (db, Inl (BadRequest (''Slot is now full. Only ''
                                         @ show_int availableSpots @ '' spots available'')))
                                 else finish (updateFirst (\<lambda>s. slot_value s = pb_timeSlot booking)
                                        (\<lambda>s. s \<lparr> currentBookings := total + pb_persons booking \<rparr>)
                                        (slots db)))))
                   else finish (slots db))))))"

text \<open>
  The body of \<open>PUT /api/pool/bookings/:id\<close>. A field that is absent, empty or \<open>0\<close> is
  skipped by the \<open>if (field)\<close> guards; \<open>notes\<close> is assigned whenever it is not
  \<open>undefined\<close>. A date that is present is taken to parse.
\<close>

record pool_update =
  pu_customerName :: string
  pu_email :: string
  pu_phone :: string
  pu_date :: "int option"
  pu_timeSlot :: string
  pu_passType :: string
  pu_persons :: int
  pu_paymentStatus :: string
  pu_notes :: "string option"

definition assignPoolFields :: "pool_update \<Rightarrow> pool_booking \<Rightarrow> pool_booking" where
  "assignPoolFields u b =
     b \<lparr> pb_customerName := (if pu_customerName u = [] then pb_customerName b
                              else pu_customerName u),
         pb_email := (if pu_email u = [] then pb_email b else pu_email u),
         pb_phone := (if pu_phone u = [] then pb_phone b else pu_phone u),
         pb_date := (case pu_date u of None \<Rightarrow> pb_date b | Some d \<Rightarrow> d),
         pb_timeSlot := (if pu_timeSlot u = [] then pb_timeSlot b else pu_timeSlot u),
         pb_passType := (if pu_passType u = [] then pb_passType b else pu_passType u),
         pb_persons := (if pu_persons u = 0 then pb_persons b else pu_persons u),
         pb_paymentStatus := (if pu_paymentStatus u = [] then pb_paymentStatus b
                               else pu_paymentStatus u),
         pb_notes := (case pu_notes u of None \<Rightarrow> pb_notes b | Some n \<Rightarrow> n) \<rparr>"

text \<open>
  \<open>exports.updateBooking\<close> of the pool controller. Its test
  \<open>timeSlot !== oldTimeSlot || date !== oldDate || persons !== oldPersons\<close> compares the
  body's date, a string or \<open>undefined\<close>, with the stored \<open>Date\<close> object, so it is true
  for every body and the capacity block always runs: the old slot's counter is lowered
  and saved (\<open>freeOldSlot\<close>), then the slot of the updated booking is looked up again
  and checked, and its
  counter is set to the persons of the other non-cancelled bookings plus the booking's
  own. The refusals of the block come after the first save. The amount is recomputed when
  the body carries a pass type or persons; \<open>booking.save()\<close> validates the document and
  a \<open>ValidationError\<close> is answered with a 400.
\<close>

definition freeOldSlot :: "pool_booking \<Rightarrow> time_slot list \<Rightarrow> time_slot list" where
  "freeOldSlot old ss =
     (if pb_timeSlot old = [] then ss
      else (case findSlot (pb_timeSlot old) ss of
              None \<Rightarrow> ss
            | Some oldSlot \<Rightarrow>
                updateFirst (\<lambda>s. slot_value s = pb_timeSlot old)
                  (\<lambda>s. s \<lparr> currentBookings := max 0 (currentBookings oldSlot - pb_persons old) \<rparr>)
                  ss))"

definition updateBooking ::
  "(pool_booking \<Rightarrow> string list) \<Rightarrow> nat \<Rightarrow> pool_update \<Rightarrow> pool_db
     \<Rightarrow> pool_db \<times> (failure + pool_booking)" where
  "updateBooking validate i u db =
    (case find (\<lambda>b. pb_id b = i) (bookings db) of
       None \<Rightarrow> (db, Inl (NotFound ''Booking not found''))
     | Some old \<Rightarrow>
        (let booking = assignPoolFields u old;
             slots1 = freeOldSlot old (slots db)
         in (case findSlot (pb_timeSlot booking) slots1 of
               None \<Rightarrow> (db \<lparr> slots := slots1 \<rparr>,
                         Inl (BadRequest ''Selected time slot is not available''))
             | Some newSlot \<Rightarrow>
                (if \<not> ts_isActive newSlot
                 then (db \<lparr> slots := slots1 \<rparr>,
                       Inl (BadRequest ''Selected time slot is not available''))
                 else
                  (let total = totalBookedPersons
                                 (existingBookings (Some (pb_id old)) (startOfDay (pb_date booking))
                                    (pb_timeSlot booking) (bookings db));
                       availableSpots = maxCapacity newSlot - total
                   in (if availableSpots < pb_persons booking
                       then (db \<lparr> slots := slots1 \<rparr>,
                             Inl (BadRequest (''Only '' @ show_int availableSpots
                                                @ '' spots available in this slot'')))
                       else
                        (let slots2 = updateFirst (\<lambda>s. slot_value s = pb_timeSlot booking)
                                        (\<lambda>s. s \<lparr> currentBookings := total + pb_persons booking \<rparr>)
                                        slots1;
                             booking' =
                               (if pu_passType u = [] \<and> pu_persons u = 0 then booking
                                else (case findTicket (pb_passType booking) (tickets db) of
                                        None \<Rightarrow> booking
                                      | Some ticket \<Rightarrow>
                                          booking \<lparr> pb_amount :=
                                            (if pb_passType booking = ''family'' then tp_price ticket
                                             else tp_price ticket * pb_persons booking) \<rparr>))
                         in (if validate booking' \<noteq> []
                             then (db \<lparr> slots := slots2 \<rparr>,
                                   Inl (ValidationFailed (validate booking')))
                             else (db \<lparr> slots := slots2,
                                        bookings := updateFirst (\<lambda>b. pb_id b = i) (\<lambda>b. booking')
                                                      (bookings db) \<rparr>,
                                   Inr booking')))))))))"

section \<open>Time slots\<close>

text \<open>The validators of the TimeSlot schema, in the order of its paths.\<close>

definition validateSlot :: "time_slot \<Rightarrow> string list" where
  "validateSlot s =
     (if slotId s = [] then [''Slot ID is required''] else [])
   @ (if label s = [] then [''Label is required''] else [])
   @ (if slot_value s = [] then [''Value is required''] else [])
   @ (if startTime s = [] then [''Start time is required''] else [])
   @ (if endTime s = [] then [''End time is required''] else [])
   @ (if maxCapacity s < 1 then [''Capacity must be at least 1''] else [])"

text \<open>
  \<open>exports.updateTimeSlot\<close>. A field the body leaves out is \<open>None\<close>; a label is also
  skipped when it is the empty string.
\<close>

definition updateTimeSlot ::
  "nat \<Rightarrow> string option \<Rightarrow> int option \<Rightarrow> bool option \<Rightarrow> time_slot list
     \<Rightarrow> time_slot list \<times> (failure + time_slot)" where
  "updateTimeSlot i lbl maxCap active ss =
    (case find (\<lambda>s. ts_id s = i) ss of
       None \<Rightarrow> (ss, Inl (NotFound ''Time slot not found''))
     | Some timeSlot \<Rightarrow>
        (let t1 = (case lbl of None \<Rightarrow> timeSlot
                   | Some l \<Rightarrow> (if l \<noteq> [] then timeSlot \<lparr> label := l \<rparr> else timeSlot))
         in (if (case maxCap of None \<Rightarrow> False | Some m \<Rightarrow> m < currentBookings t1)
             then (ss, Inl (BadRequest (''Cannot set capacity lower than current bookings (''
                                         @ show_int (currentBookings t1) @ '')'')))
             else
              (let t2 = (case maxCap of None \<Rightarrow> t1 | Some m \<Rightarrow> t1 \<lparr> maxCapacity := m \<rparr>);
                   t3 = (case active of None \<Rightarrow> t2 | Some a \<Rightarrow> t2 \<lparr> ts_isActive := a \<rparr>)
               in (if validateSlot t3 \<noteq> []
                   then (ss, Inl (ValidationFailed (validateSlot t3)))
                   else (updateFirst (\<lambda>s. ts_id s = i) (\<lambda>s. t3) ss, Inr t3))))))"

text \<open>
  \<open>exports.initializeTimeSlots\<close>. The built-in defaults carry no \<open>_id\<close> and no
  \<open>isActive\<close>: \<open>TimeSlot.create\<close> supplies a fresh \<open>_id\<close> and the schema default
  \<open>true\<close>. \<open>slotId\<close> and \<open>value\<close> have unique indexes; \<open>create\<close> runs only when no
  document has the value, so it can only collide on \<open>slotId\<close>, and the duplicate-key
  error ends the request in the 500 branch with the earlier writes in place.
\<close>

definition defaultSlots :: "time_slot list" where
  "defaultSlots =
    [ \<lparr> ts_id = 0, slotId = ''1'', label = ''06:00 AM - 09:00 AM'', slot_value = ''06:00-09:00'',
        startTime = ''06:00'', endTime = ''09:00'', maxCapacity = 50, currentBookings = 12,
        ts_isActive = True \<rparr>,
      \<lparr> ts_id = 0, slotId = ''2'', label = ''09:00 AM - 12:00 PM'', slot_value = ''09:00-12:00'',
        startTime = ''09:00'', endTime = ''12:00'', maxCapacity = 50, currentBookings = 8,
        ts_isActive = True \<rparr>,
      \<lparr> ts_id = 0, slotId = ''3'', label = ''12:00 PM - 03:00 PM'', slot_value = ''12:00-15:00'',
        startTime = ''12:00'', endTime = ''15:00'', maxCapacity = 50, currentBookings = 15,
        ts_isActive = True \<rparr>,
      \<lparr> ts_id = 0, slotId = ''4'', label = ''03:00 PM - 06:00 PM'', slot_value = ''15:00-18:00'',
        startTime = ''15:00'', endTime = ''18:00'', maxCapacity = 50, currentBookings = 20,
        ts_isActive = True \<rparr>,
      \<lparr> ts_id = 0, slotId = ''5'', label = ''06:00 PM - 09:00 PM'', slot_value = ''18:00-21:00'',
        startTime = ''18:00'', endTime = ''21:00'', maxCapacity = 50, currentBookings = 25,
        ts_isActive = True \<rparr> ]"

fun initSlotsLoop ::
  "time_slot list \<Rightarrow> time_slot list \<Rightarrow> time_slot list
     \<Rightarrow> time_slot list \<times> (failure + time_slot list)" where
  "initSlotsLoop [] results ss = (ss, Inr results)"
| "initSlotsLoop (slotData # rest) results ss =
    (case findSlot (slot_value slotData) ss of
       None \<Rightarrow>
        (if slotId slotData \<in> set (map slotId ss) then (ss, Inl ServerError)
         else (let slot = slotData \<lparr> ts_id := freshId (map ts_id ss) \<rparr>
               in initSlotsLoop rest (results @ [slot]) (ss @ [slot])))
     | Some existing \<Rightarrow>
        (let existing' = existing \<lparr> maxCapacity := maxCapacity slotData,
                                    currentBookings := currentBookings slotData \<rparr>
         in initSlotsLoop rest (results @ [existing'])
              (updateFirst (\<lambda>s. slot_value s = slot_value slotData) (\<lambda>s. existing') ss)))"

definition initializeTimeSlots :: "time_slot list \<Rightarrow> time_slot list \<times> (failure + time_slot list)" where
  "initializeTimeSlots ss = initSlotsLoop defaultSlots [] ss"

section \<open>Hotel services\<close>

record service =
  sv_id :: nat
  sv_name :: string
  sv_description :: string
  sv_price :: int
  sv_category :: string
  isAvailable :: bool

text \<open>
  \<open>exports.initializeServices\<close>. Only \<open>name\<close> has a unique index, and \<open>create\<close> runs
  only when no document has the name, so it cannot collide. \<open>Object.assign\<close> copies the
  four fields of the default onto the document found.
\<close>

definition defaultServices :: "service list" where
  "defaultServices =
    [ \<lparr> sv_id = 0, sv_name = ''Breakfast Buffet'', sv_description = ''Continental breakfast buffet'',
        sv_price = 15, sv_category = ''food'', isAvailable = True \<rparr>,
      \<lparr> sv_id = 0, sv_name = ''Lunch Special'',
        sv_description = ''Daily lunch special from the restaurant'',
        sv_price = 20, sv_category = ''food'', isAvailable = True \<rparr>,
      \<lparr> sv_id = 0, sv_name = ''Dinner Package'', sv_description = ''Three-course dinner package'',
        sv_price = 35, sv_category = ''food'', isAvailable = True \<rparr>,
      \<lparr> sv_id = 0, sv_name = ''Room Service'', sv_description = ''24-hour room service'',
        sv_price = 10, sv_category = ''food'', isAvailable = True \<rparr>,
      \<lparr> sv_id = 0, sv_name = ''Mineral Water'', sv_description = ''Bottled mineral water'',
        sv_price = 2, sv_category = ''beverage'', isAvailable = True \<rparr>,
      \<lparr> sv_id = 0, sv_name = ''Soft Drinks'', sv_description = ''Assorted soft drinks'',
        sv_price = 3, sv_category = ''beverage'', isAvailable = True \<rparr>,
      \<lparr> sv_id = 0, sv_name = ''Wine Selection'', sv_description = ''Premium wine selection'',
        sv_price = 25, sv_category = ''beverage'', isAvailable = True \<rparr>,
      \<lparr> sv_id = 0, sv_name = ''Spa Treatment'', sv_description = ''Relaxing spa treatment'',
        sv_price = 50, sv_category = ''spa'', isAvailable = True \<rparr>,
      \<lparr> sv_id = 0, sv_name = ''Massage Therapy'', sv_description = ''Professional massage therapy'',
        sv_price = 40, sv_category = ''spa'', isAvailable = True \<rparr>,
      \<lparr> sv_id = 0, sv_name = ''Laundry Service'', sv_description = ''Express laundry service'',
        sv_price = 15, sv_category = ''laundry'', isAvailable = True \<rparr>,
      \<lparr> sv_id = 0, sv_name = ''Dry Cleaning'', sv_description = ''Professional dry cleaning'',
        sv_price = 20, sv_category = ''laundry'', isAvailable = True \<rparr>,
      \<lparr> sv_id = 0, sv_name = ''Airport Transfer'', sv_description = ''Hotel to airport transfer'',
        sv_price = 25, sv_category = ''transport'', isAvailable = True \<rparr>,
      \<lparr> sv_id = 0, sv_name = ''City Tour'', sv_description = ''Guided city tour'',
        sv_price = 30, sv_category = ''transport'', isAvailable = True \<rparr> ]"

fun initServicesLoop :: "service list \<Rightarrow> service list \<Rightarrow> service list \<Rightarrow> service list \<times> service list" where
  "initServicesLoop [] results svs = (svs, results)"
| "initServicesLoop (serviceData # rest) results svs =
    (case find (\<lambda>s. sv_name s = sv_name serviceData) svs of
       None \<Rightarrow>
        (let sv = serviceData \<lparr> sv_id := freshId (map sv_id svs) \<rparr>
         in initServicesLoop rest (results @ [sv]) (svs @ [sv]))
     | Some existing \<Rightarrow>
        (let existing' = existing \<lparr> sv_name := sv_name serviceData,
                                    sv_description := sv_description serviceData,
                                    sv_price := sv_price serviceData,
                                    sv_category := sv_category serviceData \<rparr>
         in initServicesLoop rest (results @ [existing'])
              (updateFirst (\<lambda>s. sv_name s = sv_name serviceData) (\<lambda>s. existing') svs)))"

definition initializeServices :: "service list \<Rightarrow> service list \<times> (failure + service list)" where
  "initializeServices svs = (case initServicesLoop defaultServices [] svs of
                               (svs', results) \<Rightarrow> (svs', Inr results))"

section \<open>Hotel module\<close>

record room =
  rm_roomNumber :: string
  rm_roomType :: string
  rm_floor :: int
  rm_status :: string
  rm_price :: int
  rm_isActive :: bool

record room_type =
  rt_name :: string
  rt_description :: string
  basePrice :: int
  maxOccupancy :: int

record charge =
  ch_service :: string
  ch_amount :: int
  ch_quantity :: int

record reservation =
  rs_id :: nat
  guestName :: string
  rs_email :: string
  rs_phone :: string
  checkIn :: int
  checkOut :: int
  actualCheckIn :: "int option"
  actualCheckOut :: "int option"
  rs_roomType :: string
  rs_roomNumber :: string
  adults :: int
  children :: int
  totalNights :: int
  roomRate :: int
  extraCharges :: "charge list"
  subTotal :: int
  tax :: int
  totalAmount :: int
  rs_paymentStatus :: string
  reservationStatus :: string
  reservationNumber :: string
  specialRequests :: string
  rs_createdBy :: nat

record hotel_db =
  rooms :: "room list"
  roomTypes :: "room_type list"
  reservations :: "reservation list"

text \<open>
  The body of \<open>POST /api/hotel/reservations\<close>: an absent string is empty, an absent
  date is \<open>None\<close>, an absent number is \<open>0\<close> (a charge's \<open>quantity || 1\<close> reads \<open>0\<close>
  as absent too). A date that is present is taken to parse.
\<close>

record hotel_request =
  hq_guestName :: string
  hq_email :: string
  hq_phone :: string
  hq_checkIn :: "int option"
  hq_checkOut :: "int option"
  hq_roomType :: string
  hq_roomNumber :: string
  hq_adults :: int
  hq_children :: int
  hq_paymentStatus :: string
  hq_specialRequests :: string
  hq_extraCharges :: "charge list"

text \<open>
  The reservation query every hotel path repeats:
  \<open>{ roomNumber, checkIn: { $lt: to }, checkOut: { $gt: from },
     reservationStatus: { $in: ['confirmed', 'checked_in'] } }\<close>, with \<open>_id: { $ne }\<close>
  where the caller excludes its own document.
\<close>

definition overlappingReservations ::
  "nat option \<Rightarrow> string \<Rightarrow> int \<Rightarrow> int \<Rightarrow> reservation list \<Rightarrow> reservation list" where
  "overlappingReservations skip rn from to rs =
     filter (\<lambda>r. (case skip of None \<Rightarrow> True | Some i \<Rightarrow> rs_id r \<noteq> i)
                 \<and> rs_roomNumber r = rn
                 \<and> checkIn r < to \<and> checkOut r > from
                 \<and> reservationStatus r \<in> set [''confirmed'', ''checked_in'']) rs"

text \<open>\<open>Math.ceil((checkOutDate - checkInDate) / (1000 * 60 * 60 * 24))\<close>.\<close>

definition nightsBetween :: "int \<Rightarrow> int \<Rightarrow> int" where
  "nightsBetween from to = - ((from - to) div 86400000)"

text \<open>
  \<open>exports.createReservation\<close>. The messages of the Reservation schema's validators that
  fail on the new document are the parameter \<open>validate\<close>; \<open>reservationNumber\<close> has a
  unique index, and a duplicate ends in the 500 branch.
\<close>

definition createReservation ::
  "(reservation \<Rightarrow> string list) \<Rightarrow> int \<Rightarrow> nat \<Rightarrow> hotel_request \<Rightarrow> hotel_db
     \<Rightarrow> hotel_db \<times> (failure + reservation)" where
  "createReservation validate now user rq db =
    (if hq_guestName rq = [] \<or> hq_phone rq = [] \<or> hq_checkIn rq = None \<or> hq_checkOut rq = None
        \<or> hq_roomType rq = [] \<or> hq_roomNumber rq = [] \<or> hq_adults rq = 0
     then (db, Inl (BadRequest ''Please provide all required fields''))
     else (case find (\<lambda>r. rm_roomNumber r = hq_roomNumber rq) (rooms db) of
       None \<Rightarrow> (db, Inl (BadRequest ''Selected room is not available''))
     | Some room \<Rightarrow>
        (if rm_status room \<noteq> ''available''
         then (db, Inl (BadRequest ''Selected room is not available''))
         else (if overlappingReservations None (hq_roomNumber rq) (the (hq_checkIn rq))
                    (the (hq_checkOut rq)) (reservations db) \<noteq> []
         then (db, Inl (BadRequest ''Room is already booked for selected dates''))
         else (case find (\<lambda>t. rt_name t = hq_roomType rq) (roomTypes db) of
           None \<Rightarrow> (db, Inl (BadRequest ''Invalid room type''))
         | Some roomTypeInfo \<Rightarrow>
            (let checkInDate = the (hq_checkIn rq);
                 checkOutDate = the (hq_checkOut rq);
                 nights = nightsBetween checkInDate checkOutDate
             in (if nights \<le> 0
                 then (db, Inl (BadRequest ''Check-out date must be after check-in date''))
                 else
                  (let roomTotal = basePrice roomTypeInfo * nights;
                       quantityOf = (\<lambda>c. if ch_quantity c = 0 then 1 else ch_quantity c);
                       servicesTotal = foldl (\<lambda>sum c. sum + ch_amount c * quantityOf c) 0
                                         (hq_extraCharges rq);
                       subTotal = roomTotal + servicesTotal;
                       reservationNumber = ''HR-'' @ slice_last6 (show_int now) @ ''-''
                                             @ show_int (int (length (reservations db)) + 1);
                       reservation =
                         \<lparr> rs_id = freshId (map rs_id (reservations db)),
                           guestName = hq_guestName rq,
                           rs_email = hq_email rq,
                           rs_phone = hq_phone rq,
                           checkIn = checkInDate,
                           checkOut = checkOutDate,
                           actualCheckIn = None,
                           actualCheckOut = None,
                           rs_roomType = hq_roomType rq,
                           rs_roomNumber = hq_roomNumber rq,
                           adults = hq_adults rq,
                           children = hq_children rq,
                           totalNights = nights,
                           roomRate = basePrice roomTypeInfo,
                           extraCharges = map (\<lambda>c. c \<lparr> ch_quantity := quantityOf c \<rparr>)
                                            (hq_extraCharges rq),
                           subTotal = subTotal,
                           tax = 0,
                           totalAmount = subTotal + 0,
                           rs_paymentStatus = (if hq_paymentStatus rq = [] then ''pending''
                                               else hq_paymentStatus rq),
                           reservationStatus = ''confirmed'',
                           reservationNumber = reservationNumber,
                           specialRequests = hq_specialRequests rq,
                           rs_createdBy = user \<rparr>
                   in (if validate reservation \<noteq> []
                       then (db, Inl (ValidationFailed (validate reservation)))
                       else (if reservationNumber \<in> set (map reservation.reservationNumber
                                                             (reservations db))
                       then (db, Inl ServerError)
                       else (db \<lparr> reservations := reservations db @ [reservation],
                                   rooms := updateFirst (\<lambda>r. rm_roomNumber r = hq_roomNumber rq)
                                              (\<lambda>r. r \<lparr> rm_status := ''occupied'' \<rparr>) (rooms db) \<rparr>,
                             Inr reservation)))))))))))"

text \<open>
  \<open>exports.checkOut\<close>; \<open>now\<close> is \<open>new Date()\<close>. The message of the payment
  guard quotes the word paid in double quotes, character \<open>0x22\<close>.
\<close>

definition paymentPendingMessage :: string where
  "paymentPendingMessage =
     ''Cannot check out with pending payment. Please update payment status to ''
     @ [CHR 0x22] @ ''paid'' @ [CHR 0x22] @ '' first.''"

definition checkOutGuest :: "int \<Rightarrow> nat \<Rightarrow> hotel_db \<Rightarrow> hotel_db \<times> (failure + reservation)" where
  "checkOutGuest now i db =
    (case find (\<lambda>r. rs_id r = i) (reservations db) of
       None \<Rightarrow> (db, Inl (NotFound ''Reservation not found''))
     | Some reservation \<Rightarrow>
        (if reservationStatus reservation \<noteq> ''checked_in''
         then (db, Inl (BadRequest ''Only checked-in guests can check out''))
         else (if rs_paymentStatus reservation = ''pending''
                  \<or> rs_paymentStatus reservation = ''partial''
         then (db, Inl (BadRequest paymentPendingMessage))
         else
          (let reservation' = reservation \<lparr> reservationStatus := ''checked_out'',
                                            actualCheckOut := Some now \<rparr>
           in (db \<lparr> reservations := updateFirst (\<lambda>r. rs_id r = i) (\<lambda>r. reservation')
                                       (reservations db),
                    rooms := updateFirst (\<lambda>r. rm_roomNumber r = rs_roomNumber reservation)
                               (\<lambda>r. r \<lparr> rm_status := ''cleaning'' \<rparr>) (rooms db) \<rparr>,
               Inr reservation')))))"

text \<open>\<open>exports.deleteReservation\<close>.\<close>

definition deleteReservation :: "nat \<Rightarrow> hotel_db \<Rightarrow> hotel_db \<times> (failure + unit)" where
  "deleteReservation i db =
    (case find (\<lambda>r. rs_id r = i) (reservations db) of
       None \<Rightarrow> (db, Inl (NotFound ''Reservation not found''))
     | Some reservation \<Rightarrow>
        (let rooms' =
           (if reservationStatus reservation = ''confirmed''
               \<or> reservationStatus reservation = ''checked_in''
            then (case find (\<lambda>r. rm_roomNumber r = rs_roomNumber reservation) (rooms db) of
                    None \<Rightarrow> rooms db
                  | Some room \<Rightarrow>
                     (if overlappingReservations (Some (rs_id reservation))
                           (rs_roomNumber reservation) (checkIn reservation)
                           (checkOut reservation) (reservations db) = []
                      then updateFirst (\<lambda>r. rm_roomNumber r = rs_roomNumber reservation)
                             (\<lambda>r. r \<lparr> rm_status := ''available'' \<rparr>) (rooms db)
                      else rooms db))
            else rooms db)
         in (db \<lparr> rooms := rooms',
                  reservations := removeFirst (\<lambda>r. rs_id r = i) (reservations db) \<rparr>,
             Inr ())))"

section \<open>Conference module\<close>

text \<open>
  A date of a request body is absent, present but unparsable (\<open>new Date\<close> gives an invalid
  date), or an instant. A number is absent, present but not numeric (\<open>parseInt\<close> and
  \<open>parseFloat\<close> give \<open>NaN\<close>), or the parsed value; amounts are whole numbers here,
  fractions of a currency unit are not represented.
\<close>

datatype date_input = NoDate | InvalidDate | DateAt int

datatype num_input = NoNum | NotANumber | Num int

record conference_hall =
  hallId :: string
  hall_name :: string
  hall_value :: string
  capacity :: int
  hourlyRate :: int
  dailyRate :: int
  hall_isActive :: bool

record conference_booking =
  cb_id :: nat
  eventName :: string
  clientName :: string
  company :: string
  cb_email :: string
  cb_phone :: string
  hallType :: string
  startDate :: int
  endDate :: int
  cb_startTime :: string
  cb_endTime :: string
  eventType :: string
  attendees :: int
  cateringRequired :: bool
  equipmentRequired :: bool
  specialRequirements :: string
  cb_amount :: int
  advancePaid :: int
  cb_paymentStatus :: string
  bookingStatus :: string
  cb_bookingNumber :: string
  cb_notes :: string
  cb_createdBy :: nat
  approvedBy :: "nat option"
  approvedAt :: "int option"
  invoiceNumber :: string

record conference_db =
  halls :: "conference_hall list"
  conferences :: "conference_booking list"

record conference_request =
  cq_eventName :: string
  cq_clientName :: string
  cq_company :: string
  cq_email :: string
  cq_phone :: string
  cq_hallType :: string
  cq_startDate :: date_input
  cq_endDate :: date_input
  cq_startTime :: string
  cq_endTime :: string
  cq_eventType :: string
  cq_attendees :: num_input
  cq_cateringRequired :: bool
  cq_equipmentRequired :: bool
  cq_specialRequirements :: string
  cq_amount :: num_input
  cq_advancePaid :: num_input
  cq_notes :: string
  cq_bookingStatus :: string

text \<open>The loop over \<open>requiredFields\<close>: \<open>!req.body[field] && req.body[field] !== 0\<close>.\<close>

definition missingFields :: "conference_request \<Rightarrow> string list" where
  "missingFields rq =
     (if cq_eventName rq = [] then [''eventName''] else [])
   @ (if cq_clientName rq = [] then [''clientName''] else [])
   @ (if cq_email rq = [] then [''email''] else [])
   @ (if cq_phone rq = [] then [''phone''] else [])
   @ (if cq_hallType rq = [] then [''hallType''] else [])
   @ (if cq_startDate rq = NoDate then [''startDate''] else [])
   @ (if cq_endDate rq = NoDate then [''endDate''] else [])
   @ (if cq_startTime rq = [] then [''startTime''] else [])
   @ (if cq_endTime rq = [] then [''endTime''] else [])
   @ (if cq_eventType rq = [] then [''eventType''] else [])
   @ (if cq_attendees rq = NoNum then [''attendees''] else [])
   @ (if cq_amount rq = NoNum then [''amount''] else [])"

text \<open>
  The hall query of the conference paths:
  \<open>{ hallType, startDate: { $lte: to }, endDate: { $gte: from },
     bookingStatus: { $in: statuses } }\<close>, with \<open>_id: { $ne }\<close> on approval.
\<close>

definition overlappingBookings ::
  "nat option \<Rightarrow> string list \<Rightarrow> string \<Rightarrow> int \<Rightarrow> int \<Rightarrow> conference_booking list
     \<Rightarrow> conference_booking list" where
  "overlappingBookings skip statuses hall from to bs =
     filter (\<lambda>b. hallType b = hall
                 \<and> (case skip of None \<Rightarrow> True | Some i \<Rightarrow> cb_id b \<noteq> i)
                 \<and> startDate b \<le> to \<and> endDate b \<ge> from
                 \<and> bookingStatus b \<in> set statuses) bs"

text \<open>
  \<open>INV-CH-${new Date().getFullYear()}-${Math.floor(Math.random() * 1000) + 1000}\<close>:
  \<open>year\<close> is the current year, \<open>rnd\<close> the floor of the random draw.
\<close>

definition newInvoiceNumber :: "int \<Rightarrow> nat \<Rightarrow> string" where
  "newInvoiceNumber year rnd = ''INV-CH-'' @ show_int year @ ''-'' @ show_int (int rnd + 1000)"

text \<open>
  \<open>exports.createBooking\<close> of the conference controller. The dates are logged with
  \<open>toISOString()\<close> before they are tested, and that call throws on an invalid date, so
  an unparsable date ends in the 500 branch and the test for an invalid date that follows
  is never the one that answers. \<open>validate\<close> gives the messages of the Conference
  schema's validators that fail on the new document; a duplicate \<open>bookingNumber\<close>
  (unique index) is the error code 11000 of the \<open>catch\<close> block.
\<close>

definition createBooking_conf ::
  "(conference_booking \<Rightarrow> string list) \<Rightarrow> int \<Rightarrow> int \<Rightarrow> nat \<Rightarrow> nat \<Rightarrow> conference_request
     \<Rightarrow> conference_db \<Rightarrow> conference_db \<times> (failure + conference_booking)" where
  "createBooking_conf validate now year rnd user rq db =
    (if missingFields rq \<noteq> []
     then (db, Inl (BadRequest (''Missing required fields: '' @ joinComma (missingFields rq))))
     else (case (cq_startDate rq, cq_endDate rq) of
       (DateAt startDateTime, DateAt endDateTime) \<Rightarrow>
        (if endDateTime < startDateTime
         then (db, Inl (BadRequest ''End date cannot be before start date''))
         else (case find (\<lambda>h. hall_value h = cq_hallType rq \<and> hall_isActive h) (halls db) of
           None \<Rightarrow> (db, Inl (BadRequest ''Selected hall is not available''))
         | Some hall \<Rightarrow>
            (case cq_attendees rq of
               Num attendeesNum \<Rightarrow>
                (if attendeesNum < 1
                 then (db, Inl (BadRequest ''Number of attendees must be at least 1''))
                 else (if attendeesNum > capacity hall
                 then (db, Inl (BadRequest (''Hall capacity is '' @ show_int (capacity hall)
                         @ '', cannot book for '' @ show_int attendeesNum @ '' attendees'')))
                 else (if overlappingBookings None [''approved'', ''confirmed'', ''pending'']
                            (cq_hallType rq) startDateTime endDateTime (conferences db) \<noteq> []
                 then (db, Inl (BadRequest ''Hall is already booked for selected dates''))
                 else (case cq_amount rq of
                   Num amountNum \<Rightarrow>
                    (if amountNum \<le> 0
                     then (db, Inl (BadRequest ''Amount must be a positive number''))
                     else
                      (let advancePaidNum = (case cq_advancePaid rq of Num a \<Rightarrow> a | _ \<Rightarrow> 0);
                           paymentStatus = (if advancePaidNum \<ge> amountNum then ''paid''
                                            else if advancePaidNum > 0 then ''partial''
                                            else ''pending'');
                           invoice = (if cq_bookingStatus rq = ''approved''
                                      then newInvoiceNumber year rnd else []);
                           bookingNumber = ''CH-'' @ slice_last6 (show_int now) @ ''-''
                                             @ show_int (int (length (conferences db)) + 1);
                           booking =
                             \<lparr> cb_id = freshId (map cb_id (conferences db)),
                               eventName = cq_eventName rq,
                               clientName = cq_clientName rq,
                               company = cq_company rq,
                               cb_email = cq_email rq,
                               cb_phone = cq_phone rq,
                               hallType = cq_hallType rq,
                               startDate = startDateTime,
                               endDate = endDateTime,
                               cb_startTime = cq_startTime rq,
                               cb_endTime = cq_endTime rq,
                               eventType = cq_eventType rq,
                               attendees = attendeesNum,
                               cateringRequired = cq_cateringRequired rq,
                               equipmentRequired = cq_equipmentRequired rq,
                               specialRequirements = cq_specialRequirements rq,
                               cb_amount = amountNum,
                               advancePaid = advancePaidNum,
                               cb_paymentStatus = paymentStatus,
                               bookingStatus = ''pending'',
                               cb_bookingNumber = bookingNumber,
                               cb_notes = cq_notes rq,
                               cb_createdBy = user,
                               approvedBy = (if invoice \<noteq> [] then Some user else None),
                               approvedAt = (if invoice \<noteq> [] then Some now else None),
                               invoiceNumber = invoice \<rparr>
                       in (if validate booking \<noteq> []
                           then (db, Inl (ValidationFailed (validate booking)))
                           else (if bookingNumber \<in> set (map cb_bookingNumber (conferences db))
                           then (db, Inl (BadRequest ''Duplicate booking detected. Please try again.''))
                           else (db \<lparr> conferences := conferences db @ [booking] \<rparr>,
                                 Inr booking)))))
                 | _ \<Rightarrow> (db, Inl (BadRequest ''Amount must be a positive number''))))))
             | _ \<Rightarrow> (db, Inl (BadRequest ''Number of attendees must be at least 1'')))))
     | _ \<Rightarrow> (db, Inl ServerError)))"

text \<open>
  The body of \<open>PUT /api/conference/bookings/:id\<close>: \<open>None\<close>, \<open>NoDate\<close> and \<open>NoNum\<close> are
  fields the body leaves \<open>undefined\<close>; an empty \<open>bookingStatus\<close> is an absent one.
\<close>

record conference_update =
  cu_eventName :: "string option"
  cu_clientName :: "string option"
  cu_company :: "string option"
  cu_email :: "string option"
  cu_phone :: "string option"
  cu_hallType :: "string option"
  cu_startDate :: date_input
  cu_endDate :: date_input
  cu_startTime :: "string option"
  cu_endTime :: "string option"
  cu_eventType :: "string option"
  cu_attendees :: num_input
  cu_cateringRequired :: "bool option"
  cu_equipmentRequired :: "bool option"
  cu_specialRequirements :: "string option"
  cu_amount :: num_input
  cu_advancePaid :: num_input
  cu_notes :: "string option"
  cu_bookingStatus :: string

text \<open>
  The \<open>forEach\<close> over \<open>updatableFields\<close>. An invalid date or a \<open>NaN\<close> does not cast:
  the document keeps its value and \<open>save\<close> throws.
\<close>

definition castFails :: "conference_update \<Rightarrow> bool" where
  "castFails u \<longleftrightarrow> cu_startDate u = InvalidDate \<or> cu_endDate u = InvalidDate
                   \<or> cu_attendees u = NotANumber \<or> cu_amount u = NotANumber
                   \<or> cu_advancePaid u = NotANumber"

definition assignFields :: "conference_update \<Rightarrow> conference_booking \<Rightarrow> conference_booking" where
  "assignFields u b =
     b \<lparr> eventName := (case cu_eventName u of None \<Rightarrow> eventName b | Some v \<Rightarrow> v),
         clientName := (case cu_clientName u of None \<Rightarrow> clientName b | Some v \<Rightarrow> v),
         company := (case cu_company u of None \<Rightarrow> company b | Some v \<Rightarrow> v),
         cb_email := (case cu_email u of None \<Rightarrow> cb_email b | Some v \<Rightarrow> v),
         cb_phone := (case cu_phone u of None \<Rightarrow> cb_phone b | Some v \<Rightarrow> v),
         hallType := (case cu_hallType u of None \<Rightarrow> hallType b | Some v \<Rightarrow> v),
         startDate := (case cu_startDate u of DateAt t \<Rightarrow> t | _ \<Rightarrow> startDate b),
         endDate := (case cu_endDate u of DateAt t \<Rightarrow> t | _ \<Rightarrow> endDate b),
         cb_startTime := (case cu_startTime u of None \<Rightarrow> cb_startTime b | Some v \<Rightarrow> v),
         cb_endTime := (case cu_endTime u of None \<Rightarrow> cb_endTime b | Some v \<Rightarrow> v),
         eventType := (case cu_eventType u of None \<Rightarrow> eventType b | Some v \<Rightarrow> v),
         attendees := (case cu_attendees u of Num n \<Rightarrow> n | _ \<Rightarrow> attendees b),
         cateringRequired := (case cu_cateringRequired u of None \<Rightarrow> cateringRequired b
                              | Some v \<Rightarrow> v),
         equipmentRequired := (case cu_equipmentRequired u of None \<Rightarrow> equipmentRequired b
                               | Some v \<Rightarrow> v),
         specialRequirements := (case cu_specialRequirements u of None \<Rightarrow> specialRequirements b
                                 | Some v \<Rightarrow> v),
         cb_amount := (case cu_amount u of Num n \<Rightarrow> n | _ \<Rightarrow> cb_amount b),
         advancePaid := (case cu_advancePaid u of Num n \<Rightarrow> n | _ \<Rightarrow> advancePaid b),
         cb_notes := (case cu_notes u of None \<Rightarrow> cb_notes b | Some v \<Rightarrow> v) \<rparr>"

text \<open>
  \<open>exports.updateBooking\<close> of the conference controller. Its \<open>catch\<close> block answers
  every error of \<open>save\<close> with a 500.
\<close>

definition updateBooking_conf ::
  "(conference_booking \<Rightarrow> string list) \<Rightarrow> int \<Rightarrow> int \<Rightarrow> nat \<Rightarrow> nat \<Rightarrow> nat \<Rightarrow> conference_update
     \<Rightarrow> conference_db \<Rightarrow> conference_db \<times> (failure + conference_booking)" where
  "updateBooking_conf validate now year rnd user i u db =
    (case find (\<lambda>b. cb_id b = i) (conferences db) of
       None \<Rightarrow> (db, Inl (NotFound ''Booking not found''))
     | Some booking \<Rightarrow>
        (let b1 = assignFields u booking;
             b2 = (if cu_advancePaid u \<noteq> NoNum
                   then b1 \<lparr> cb_paymentStatus :=
                              (if advancePaid b1 \<ge> cb_amount b1 then ''paid''
                               else if advancePaid b1 > 0 then ''partial''
                               else ''pending'') \<rparr>
                   else b1);
             b3 = (if cu_bookingStatus u = ''approved'' \<and> bookingStatus b2 \<noteq> ''approved''
                      \<and> invoiceNumber b2 = []
                   then b2 \<lparr> invoiceNumber := newInvoiceNumber year rnd,
                             approvedAt := Some now,
                             approvedBy := Some user \<rparr>
                   else b2)
         in (if castFails u \<or> validate b3 \<noteq> []
             then (db, Inl ServerError)
             else (db \<lparr> conferences := updateFirst (\<lambda>b. cb_id b = i) (\<lambda>b. b3)
                                           (conferences db) \<rparr>,
                   Inr b3))))"

text \<open>\<open>exports.updateBookingStatus\<close>.\<close>

definition updateBookingStatus ::
  "int \<Rightarrow> int \<Rightarrow> nat \<Rightarrow> nat \<Rightarrow> nat \<Rightarrow> string \<Rightarrow> conference_db
     \<Rightarrow> conference_db \<times> (failure + conference_booking)" where
  "updateBookingStatus now year rnd user i status db =
    (if status = []
        \<or> status \<notin> set [''pending'', ''approved'', ''confirmed'', ''completed'', ''cancelled'']
     then (db, Inl (BadRequest ''Invalid booking status''))
     else (case find (\<lambda>b. cb_id b = i) (conferences db) of
       None \<Rightarrow> (db, Inl (NotFound ''Booking not found''))
     | Some booking \<Rightarrow>
        (if status = ''approved'' \<and> bookingStatus booking \<noteq> ''approved''
            \<and> overlappingBookings (Some (cb_id booking)) [''approved'', ''confirmed'']
                  (hallType booking) (startDate booking) (endDate booking) (conferences db) \<noteq> []
         then (db, Inl (BadRequest ''Hall is already booked for these dates''))
         else
          (let b1 = booking \<lparr> bookingStatus := status \<rparr>;
               b2 = (if status = ''approved''
                     then b1 \<lparr> approvedBy := Some user,
                               approvedAt := Some now,
                               invoiceNumber := (if invoiceNumber b1 = []
                                                 then newInvoiceNumber year rnd
                                                 else invoiceNumber b1) \<rparr>
                     else b1)
           in (db \<lparr> conferences := updateFirst (\<lambda>b. cb_id b = i) (\<lambda>b. b2) (conferences db) \<rparr>,
               Inr b2)))))"

text \<open>\<open>exports.deleteBooking\<close> of the conference controller.\<close>

definition deleteBooking_conf ::
  "nat \<Rightarrow> conference_db \<Rightarrow> conference_db \<times> (failure + unit)" where
  "deleteBooking_conf i db =
    (case find (\<lambda>b. cb_id b = i) (conferences db) of
       None \<Rightarrow> (db, Inl (NotFound ''Booking not found''))
     | Some booking \<Rightarrow>
        (if bookingStatus booking = ''confirmed'' \<or> bookingStatus booking = ''completed''
         then (db, Inl (BadRequest ''Cannot delete confirmed or completed bookings''))
         else (db \<lparr> conferences := removeFirst (\<lambda>b. cb_id b = i) (conferences db) \<rparr>,
               Inr ())))"

section \<open>Sample data\<close>

text \<open>
  Small stores on which the operations are run below. Instants are epoch milliseconds:
  \<open>1699920000000\<close> is midnight of 14 November 2023, and each further day adds
  \<open>86400000\<close>. In \<open>ex_pool_db\<close> the non-cancelled bookings of the slot hold 40
  persons, in \<open>ex_busy_pool_db\<close> 45; the counter of \<open>ex_slot\<close> is the seeded 12 and
  has drifted from them, in \<open>ex_counter_db\<close> it is the 14 persons booked.
\<close>

definition acceptAll :: "'a \<Rightarrow> string list" where
  "acceptAll doc = []"

definition ex_slot :: time_slot where
  "ex_slot = \<lparr> ts_id = 1, slotId = ''1'', label = ''06:00 AM - 09:00 AM'',
               slot_value = ''06:00-09:00'', startTime = ''06:00'', endTime = ''09:00'',
               maxCapacity = 50, currentBookings = 12, ts_isActive = True \<rparr>"

definition ex_closed_slot :: time_slot where
  "ex_closed_slot = ex_slot \<lparr> ts_isActive := False \<rparr>"

definition ex_tickets :: "ticket_price list" where
  "ex_tickets =
    [ \<lparr> tp_passType = ''hourly'', tp_price = 15, tp_description = ''Hourly pass'',
        maxPersons = 5, tp_isActive = True \<rparr>,
      \<lparr> tp_passType = ''family'', tp_price = 60, tp_description = ''Family pass'',
        maxPersons = 4, tp_isActive = True \<rparr> ]"

definition ex_pool_booking :: "nat \<Rightarrow> int \<Rightarrow> string \<Rightarrow> pool_booking" where
  "ex_pool_booking i n st =
     \<lparr> pb_id = i, pb_customerName = ''Ama Kollie'', pb_email = ''ama@example.com'',
       pb_phone = ''0770000000'', pb_date = 1699920000000, pb_timeSlot = ''06:00-09:00'',
       pb_passType = ''hourly'', pb_persons = n, pb_amount = 15 * n, pb_paymentStatus = st,
       pb_notes = [], pb_bookingNumber = ''PB-000000-'' @ show_nat i, pb_createdBy = 7 \<rparr>"

definition ex_pool_db :: pool_db where
  "ex_pool_db = \<lparr> slots = [ex_slot], tickets = ex_tickets,
                  bookings = [ex_pool_booking 1 10 ''paid'', ex_pool_booking 2 10 ''paid'',
                              ex_pool_booking 3 10 ''paid'', ex_pool_booking 4 10 ''pending'',
                              ex_pool_booking 5 4 ''cancelled''] \<rparr>"


definition ex_counter_db :: pool_db where
  "ex_counter_db =
     \<lparr> slots = [ex_slot \<lparr> currentBookings := 14 \<rparr>], tickets = ex_tickets,
       bookings = [ex_pool_booking 1 10 ''paid'', ex_pool_booking 2 4 ''paid''] \<rparr>"

definition ex_status_update :: "string \<Rightarrow> pool_update" where
  "ex_status_update st =
     \<lparr> pu_customerName = [], pu_email = [], pu_phone = [], pu_date = None, pu_timeSlot = [],
       pu_passType = [], pu_persons = 0, pu_paymentStatus = st, pu_notes = None \<rparr>"

definition ex_closed_pool_db :: pool_db where
  "ex_closed_pool_db = ex_pool_db \<lparr> slots := [ex_closed_slot] \<rparr>"

definition ex_pool_request :: "string \<Rightarrow> int \<Rightarrow> pool_request" where
  "ex_pool_request pass n =
     \<lparr> rq_customerName = ''Joe Doe'', rq_email = ''joe@example.com'', rq_phone = ''0880000000'',
       rq_date = Some 1699950000000, rq_timeSlot = ''06:00-09:00'', rq_passType = pass,
       rq_persons = n, rq_paymentStatus = [], rq_notes = [] \<rparr>"

definition ex_room :: room where
  "ex_room = \<lparr> rm_roomNumber = ''101'', rm_roomType = ''standard'', rm_floor = 1,
               rm_status = ''available'', rm_price = 80, rm_isActive = True \<rparr>"

definition ex_room_type :: room_type where
  "ex_room_type = \<lparr> rt_name = ''standard'', rt_description = ''Standard room'',
                    basePrice = 80, maxOccupancy = 2 \<rparr>"

definition ex_reservation :: "nat \<Rightarrow> string \<Rightarrow> string \<Rightarrow> reservation" where
  "ex_reservation i status payment =
     \<lparr> rs_id = i, guestName = ''Ama Kollie'', rs_email = ''ama@example.com'',
       rs_phone = ''0770000000'', checkIn = 1699920000000, checkOut = 1700092800000,
       actualCheckIn = None, actualCheckOut = None, rs_roomType = ''standard'',
       rs_roomNumber = ''101'', adults = 2, children = 0, totalNights = 2, roomRate = 80,
       extraCharges = [], subTotal = 160, tax = 0, totalAmount = 160,
       rs_paymentStatus = payment, reservationStatus = status,
       reservationNumber = ''HR-000000-'' @ show_nat i, specialRequests = [], rs_createdBy = 7 \<rparr>"

definition ex_hotel_db :: "string \<Rightarrow> string \<Rightarrow> hotel_db" where
  "ex_hotel_db status payment =
     \<lparr> rooms = [ex_room], roomTypes = [ex_room_type],
       reservations = [ex_reservation 1 status payment] \<rparr>"

definition ex_hotel_db_two :: hotel_db where
  "ex_hotel_db_two =
     \<lparr> rooms = [ex_room], roomTypes = [ex_room_type],
       reservations = [ex_reservation 1 ''checked_out'' ''paid'',
                       ex_reservation 2 ''confirmed'' ''paid''] \<rparr>"

definition ex_hotel_request :: "int \<Rightarrow> int \<Rightarrow> hotel_request" where
  "ex_hotel_request from to =
     \<lparr> hq_guestName = ''Joe Doe'', hq_email = ''joe@example.com'', hq_phone = ''0880000000'',
       hq_checkIn = Some from, hq_checkOut = Some to, hq_roomType = ''standard'',
       hq_roomNumber = ''101'', hq_adults = 2, hq_children = 0, hq_paymentStatus = [],
       hq_specialRequests = [], hq_extraCharges = [] \<rparr>"

definition ex_hall :: conference_hall where
  "ex_hall = \<lparr> hallId = ''1'', hall_name = ''Hall A'', hall_value = ''hall_a'', capacity = 100,
               hourlyRate = 50, dailyRate = 300, hall_isActive = True \<rparr>"

definition ex_conference :: "nat \<Rightarrow> string \<Rightarrow> string \<Rightarrow> string \<Rightarrow> conference_booking" where
  "ex_conference i hall status invoice =
     \<lparr> cb_id = i, eventName = ''Annual meeting'', clientName = ''Ama Kollie'', company = [],
       cb_email = ''ama@example.com'', cb_phone = ''0770000000'', hallType = hall,
       startDate = 1699920000000, endDate = 1700006400000,
       cb_startTime = ''09:00'', cb_endTime = ''17:00'', eventType = ''meeting'',
       attendees = 40, cateringRequired = False, equipmentRequired = False,
       specialRequirements = [], cb_amount = 600, advancePaid = 0,
       cb_paymentStatus = ''pending'', bookingStatus = status,
       cb_bookingNumber = ''CH-000000-'' @ show_nat i, cb_notes = [], cb_createdBy = 7,
       approvedBy = None, approvedAt = None, invoiceNumber = invoice \<rparr>"

definition ex_conference_db :: conference_db where
  "ex_conference_db =
     \<lparr> halls = [ex_hall],
       conferences = [ex_conference 1 ''hall_a'' ''confirmed'' ''INV-CH-2025-1234'',
                      ex_conference 2 ''hall_b'' ''pending'' []] \<rparr>"

definition ex_conference_request :: "int \<Rightarrow> int \<Rightarrow> conference_request" where
  "ex_conference_request from to =
     \<lparr> cq_eventName = ''Workshop'', cq_clientName = ''Joe Doe'', cq_company = [],
       cq_email = ''joe@example.com'', cq_phone = ''0880000000'', cq_hallType = ''hall_a'',
       cq_startDate = DateAt from, cq_endDate = DateAt to,
       cq_startTime = ''09:00'', cq_endTime = ''17:00'', cq_eventType = ''training'',
       cq_attendees = Num 30, cq_cateringRequired = False, cq_equipmentRequired = False,
       cq_specialRequirements = [], cq_amount = Num 300, cq_advancePaid = NoNum,
       cq_notes = [], cq_bookingStatus = [] \<rparr>"

definition ex_conference_update :: conference_update where
  "ex_conference_update =
     \<lparr> cu_eventName = Some ''Annual general meeting'', cu_clientName = None, cu_company = None,
       cu_email = None, cu_phone = None, cu_hallType = None,
       cu_startDate = NoDate, cu_endDate = NoDate, cu_startTime = None, cu_endTime = None,
       cu_eventType = None, cu_attendees = Num 45, cu_cateringRequired = None,
       cu_equipmentRequired = None, cu_specialRequirements = None,
       cu_amount = NoNum, cu_advancePaid = Num 100, cu_notes = None,
       cu_bookingStatus = ''approved'' \<rparr>"

section \<open>Facts about the store operations\<close>

lemma find_Some_holds: "find P xs = Some x \<Longrightarrow> P x \<and> x \<in> set xs"
  by (induction xs) (auto split: if_splits)

lemma find_updateFirst:
  "find P xs = Some x \<Longrightarrow> P (f x) \<Longrightarrow> find P (updateFirst P f xs) = Some (f x)"
  by (induction xs) (auto split: if_splits)

lemma find_updateFirst_other:
  "(\<And>x. P x \<Longrightarrow> \<not> Q x \<and> \<not> Q (f x)) \<Longrightarrow> find Q (updateFirst P f xs) = find Q xs"
  by (induction xs) auto

lemma updateFirst_same:
  "find P xs = Some x \<Longrightarrow> f x = x \<Longrightarrow> updateFirst P f xs = xs"
  by (induction xs) (auto split: if_splits)

lemma set_updateFirst: "set (updateFirst P f xs) \<subseteq> set xs \<union> f ` set xs"
  by (induction xs) auto

lemma map_updateFirst_key:
  "(\<And>x. P x \<Longrightarrow> k (f x) = k x) \<Longrightarrow> map k (updateFirst P f xs) = map k xs"
  by (induction xs) auto

lemma length_removeFirst:
  "find P xs = Some x \<Longrightarrow> Suc (length (removeFirst P xs)) = length xs"
  by (induction xs) (auto split: if_splits)

lemma find_append_Some: "find P xs = Some x \<Longrightarrow> find P (xs @ ys) = Some x"
  by (induction xs) (auto split: if_splits)

lemma find_append_None: "find P xs = None \<Longrightarrow> find P (xs @ [y]) = (if P y then Some y else None)"
  by (induction xs) (auto split: if_splits)


lemma find_removeFirst_distinct:
  "distinct (map k xs) \<Longrightarrow> find (\<lambda>x. k x = i) (removeFirst (\<lambda>x. k x = i) xs) = None"
  by (induction xs) (auto simp: find_None_iff image_iff)

lemma set_removeFirst_distinct:
  "distinct (map k xs) \<Longrightarrow> find (\<lambda>x. k x = i) xs = Some x
     \<Longrightarrow> set (removeFirst (\<lambda>x. k x = i) xs) = set xs - {x}"
  by (induction xs) (auto split: if_splits dest: find_Some_holds)

lemma succeeded_collapse: "\<not> isl (snd x) \<Longrightarrow> x = (fst x, Inr (projr (snd x)))"
  by (cases x, cases "snd x") auto

lemma newInvoiceNumber_nonempty: "newInvoiceNumber year rnd \<noteq> []"
  by (simp add: newInvoiceNumber_def)

section \<open>Pool bookings: admission, pricing, release and re-activation\<close>

text \<open>
  The guards on the required fields and on the slot come before the capacity check. With
  50 places, 40 of them booked, and 15 persons requested, a request on a slot that has
  been deactivated is refused as not available, and a request without the customer's name
  is refused for the missing field: both are 400s, neither reports the 10 remaining spots.
\<close>

theorem createBooking_guard_counterexample:
  "maxCapacity ex_closed_slot = 50
   \<and> totalBookedPersons (existingBookings None (startOfDay 1699950000000) ''06:00-09:00''
                            (bookings ex_closed_pool_db)) = 40
   \<and> rq_persons (ex_pool_request ''hourly'' 15) = 15
   \<and> createBooking acceptAll 1700000000000 7 (ex_pool_request ''hourly'' 15) ex_closed_pool_db
       = (ex_closed_pool_db, Inl (BadRequest ''Selected time slot is not available''))
   \<and> createBooking acceptAll 1700000000000 7
         ((ex_pool_request ''hourly'' 15) \<lparr> rq_customerName := [] \<rparr>) ex_pool_db
       = (ex_pool_db, Inl (BadRequest ''Please provide all required fields''))"
  by (simp add: createBooking_def findSlot_def totalBookedPersons_def existingBookings_def
                startOfDay_def endOfDay_def ex_pool_request_def ex_closed_pool_db_def
                ex_pool_db_def ex_pool_booking_def ex_closed_slot_def ex_slot_def)

text \<open>
  C1 (amended). A creation request that carries every required field and names an
  existing, active time slot is judged on capacity: with \<open>B\<close> the persons of the
  non-cancelled bookings of the same day and slot, \<open>C\<close> the slot's \<open>maxCapacity\<close> and
  \<open>p\<close> the persons requested, it is admitted only if \<open>B + p \<le> C\<close>, and otherwise it is
  answered with the 400 whose message reports the \<open>C - B\<close> remaining spots. The first
  two parts hold for every request on an existing slot, whatever the earlier guards say:
  no request is admitted past the limit, and a request past the limit always ends in a 400
  that leaves the store as it was.
\<close>

theorem createBooking_capacity:
  assumes "findSlot (rq_timeSlot rq) (slots db) = Some slot"
      and "rq_date rq = Some d"
      and "B = totalBookedPersons
                 (existingBookings None (startOfDay d) (rq_timeSlot rq) (bookings db))"
      and "C = maxCapacity slot"
      and "p = rq_persons rq"
  shows "(createBooking validate now user rq db = (db', Inr b) \<longrightarrow> B + p \<le> C)
       \<and> (\<not> B + p \<le> C \<longrightarrow>
            (\<exists>f. createBooking validate now user rq db = (db, Inl f) \<and> http_status f = 400))
       \<and> (rq_customerName rq \<noteq> [] \<and> rq_email rq \<noteq> [] \<and> rq_phone rq \<noteq> []
            \<and> rq_timeSlot rq \<noteq> [] \<and> rq_passType rq \<noteq> [] \<and> p \<noteq> 0
            \<and> ts_isActive slot \<and> \<not> B + p \<le> C
          \<longrightarrow> createBooking validate now user rq db
                = (db, Inl (BadRequest (''Only '' @ show_int (C - B)
                                          @ '' spots available in this slot''))))"
  using assms
  by (auto simp: createBooking_def Let_def split: option.splits if_splits)

theorem createBooking_capacity_witness:
  "createBooking acceptAll 1700000000000 7 (ex_pool_request ''hourly'' 15) ex_pool_db
     = (ex_pool_db, Inl (BadRequest ''Only 10 spots available in this slot''))
   \<and> \<not> isl (snd (createBooking acceptAll 1700000000000 7 (ex_pool_request ''hourly'' 5)
                   ex_pool_db))"
proof -
  have slot: "findSlot (rq_timeSlot (ex_pool_request ''hourly'' 15)) (slots ex_pool_db)
                = Some ex_slot"
    by (simp add: findSlot_def ex_pool_request_def ex_pool_db_def ex_slot_def)
  have date: "rq_date (ex_pool_request ''hourly'' 15) = Some 1699950000000"
    by (simp add: ex_pool_request_def)
  have B: "(40::int) = totalBookedPersons
             (existingBookings None (startOfDay 1699950000000)
                (rq_timeSlot (ex_pool_request ''hourly'' 15)) (bookings ex_pool_db))"
    by (simp add: totalBookedPersons_def existingBookings_def startOfDay_def endOfDay_def
                  ex_pool_request_def ex_pool_db_def ex_pool_booking_def)
  have C: "(50::int) = maxCapacity ex_slot" by (simp add: ex_slot_def)
  have p: "(15::int) = rq_persons (ex_pool_request ''hourly'' 15)"
    by (simp add: ex_pool_request_def)
  have rejected: "createBooking acceptAll 1700000000000 7 (ex_pool_request ''hourly'' 15) ex_pool_db
     = (ex_pool_db, Inl (BadRequest ''Only 10 spots available in this slot''))"
    using createBooking_capacity [OF slot date B C p, where validate = acceptAll
                                  and now = 1700000000000 and user = 7]
    by (simp add: ex_pool_request_def ex_slot_def show_int_def show_nat.simps digit_char_def)
  have admitted: "\<not> isl (snd (createBooking acceptAll 1700000000000 7
                                 (ex_pool_request ''hourly'' 5) ex_pool_db))"
    by (simp add: createBooking_def Let_def acceptAll_def findSlot_def findTicket_def
                  totalBookedPersons_def existingBookings_def startOfDay_def endOfDay_def
                  ex_pool_request_def ex_pool_db_def ex_pool_booking_def ex_slot_def
                  ex_tickets_def show_int_def show_nat.simps digit_char_def slice_last6_def)
  show ?thesis using rejected admitted by simp
qed

text \<open>
  C10. The amount stored with a created pool booking is the ticket's price for the family
  pass, whatever the number of persons, and the price times the persons for every other
  pass.
\<close>

theorem createBooking_amount:
  assumes "createBooking validate now user rq db = (db', Inr b)"
  shows "\<exists>ticket. findTicket (rq_passType rq) (tickets db) = Some ticket
           \<and> bookings db' = bookings db @ [b]
           \<and> pb_passType b = rq_passType rq \<and> pb_persons b = rq_persons rq
           \<and> pb_amount b = (if pb_passType b = ''family'' then tp_price ticket
                             else tp_price ticket * pb_persons b)"
  using assms
  by (auto simp: createBooking_def Let_def split: option.splits if_splits)

theorem createBooking_amount_witness:
  "pb_amount (projr (snd (createBooking acceptAll 1700000000000 7
                            (ex_pool_request ''hourly'' 3) ex_pool_db))) = 45
   \<and> pb_amount (projr (snd (createBooking acceptAll 1700000000000 7
                              (ex_pool_request ''family'' 4) ex_pool_db))) = 60"
proof -
  let ?hourly = "createBooking acceptAll 1700000000000 7 (ex_pool_request ''hourly'' 3) ex_pool_db"
  let ?family = "createBooking acceptAll 1700000000000 7 (ex_pool_request ''family'' 4) ex_pool_db"
  have "\<not> isl (snd ?hourly)"
    by (simp add: createBooking_def Let_def acceptAll_def findSlot_def findTicket_def
                  totalBookedPersons_def existingBookings_def startOfDay_def endOfDay_def
                  ex_pool_request_def ex_pool_db_def ex_pool_booking_def ex_slot_def
                  ex_tickets_def show_int_def show_nat.simps digit_char_def slice_last6_def)
  then have "pb_amount (projr (snd ?hourly)) = 45"
    using createBooking_amount [OF succeeded_collapse, where validate = acceptAll
            and now = 1700000000000 and user = 7 and rq = "ex_pool_request ''hourly'' 3"
            and db = ex_pool_db]
    by (auto simp: findTicket_def ex_pool_db_def ex_tickets_def ex_pool_request_def)
  moreover have "\<not> isl (snd ?family)"
    by (simp add: createBooking_def Let_def acceptAll_def findSlot_def findTicket_def
                  totalBookedPersons_def existingBookings_def startOfDay_def endOfDay_def
                  ex_pool_request_def ex_pool_db_def ex_pool_booking_def ex_slot_def
                  ex_tickets_def show_int_def show_nat.simps digit_char_def slice_last6_def)
  then have "pb_amount (projr (snd ?family)) = 60"
    using createBooking_amount [OF succeeded_collapse, where validate = acceptAll
            and now = 1700000000000 and user = 7 and rq = "ex_pool_request ''family'' 4"
            and db = ex_pool_db]
    by (auto simp: findTicket_def ex_pool_db_def ex_tickets_def ex_pool_request_def)
  ultimately show ?thesis by simp
qed

text \<open>
  The two endpoints that release a slot by name, \<open>DELETE /bookings/:id\<close> and
  \<open>PUT /bookings/:id/status\<close>, set the counter of the booking's time slot to
  \<open>max 0 (currentBookings - persons)\<close>.
\<close>

lemma pool_release_floor:
  assumes "find (\<lambda>b. pb_id b = i) (bookings db) = Some booking"
      and "findSlot (pb_timeSlot booking) (slots db) = Some slot"
  shows "(\<exists>slot'. findSlot (pb_timeSlot booking) (slots (fst (deleteBooking i db))) = Some slot'
            \<and> currentBookings slot' = max 0 (currentBookings slot - pb_persons booking)
            \<and> 0 \<le> currentBookings slot')
       \<and> (pb_paymentStatus booking \<noteq> ''cancelled'' \<longrightarrow>
            (\<exists>slot'. findSlot (pb_timeSlot booking)
                        (slots (fst (updatePaymentStatus validate i ''cancelled'' db))) = Some slot'
              \<and> currentBookings slot' = max 0 (currentBookings slot - pb_persons booking)
              \<and> 0 \<le> currentBookings slot'))"
proof -
  let ?P = "\<lambda>s. slot_value s = pb_timeSlot booking"
  let ?f = "\<lambda>s. s \<lparr> currentBookings := max 0 (currentBookings slot - pb_persons booking) \<rparr>"
  have found: "find ?P (slots db) = Some slot"
    using assms(2) by (simp add: findSlot_def)
  then have "?P slot" using find_Some_holds [of ?P "slots db" slot] by simp
  then have upd: "findSlot (pb_timeSlot booking) (updateFirst ?P ?f (slots db)) = Some (?f slot)"
    using find_updateFirst [OF found, of ?f] by (simp add: findSlot_def)
  have del: "slots (fst (deleteBooking i db)) = updateFirst ?P ?f (slots db)"
    using assms by (simp add: deleteBooking_def Let_def)
  have canc: "pb_paymentStatus booking \<noteq> ''cancelled'' \<Longrightarrow>
              slots (fst (updatePaymentStatus validate i ''cancelled'' db))
                = updateFirst ?P ?f (slots db)"
    using assms by (simp add: updatePaymentStatus_def Let_def)
  show ?thesis using upd del canc by simp
qed

text \<open>
  C8. Cancelling a pool booking is to leave the counter of its time slot at
  \<open>max 0 (currentBookings - persons)\<close>. The status endpoint does so, and the third path
  that changes the payment status, \<open>PUT /bookings/:id\<close>, does not. A slot of 50 places
  counts 14 persons, a booking of 10 and a booking of 4, both paid. Cancelling the booking
  of 4 through the status endpoint leaves the counter at \<open>max 0 (14 - 4) = 10\<close>.
  Cancelling it through the update endpoint stores the booking as cancelled too, but the
  counter, lowered to 10 and saved, is then set to the 10 persons of the other booking
  plus the 4 of the cancelled one: it ends at 14.
\<close>

theorem updateBooking_cancel_counter:
  "map currentBookings (slots ex_counter_db) = [14]
   \<and> map pb_persons (bookings ex_counter_db) = [10, 4]
   \<and> map pb_paymentStatus (bookings ex_counter_db) = [''paid'', ''paid'']
   \<and> map currentBookings
        (slots (fst (updatePaymentStatus acceptAll 2 ''cancelled'' ex_counter_db))) = [10]
   \<and> \<not> isl (snd (updateBooking acceptAll 2 (ex_status_update ''cancelled'') ex_counter_db))
   \<and> map pb_paymentStatus
        (bookings (fst (updateBooking acceptAll 2 (ex_status_update ''cancelled'') ex_counter_db)))
       = [''paid'', ''cancelled'']
   \<and> map currentBookings
        (slots (fst (updateBooking acceptAll 2 (ex_status_update ''cancelled'') ex_counter_db)))
       = [14]"
  by (simp add: updateBooking_def updatePaymentStatus_def freeOldSlot_def assignPoolFields_def
                Let_def acceptAll_def findSlot_def totalBookedPersons_def existingBookings_def
                startOfDay_def endOfDay_def ex_counter_db_def ex_status_update_def
                ex_pool_booking_def ex_slot_def)





section \<open>Time slots and services: capacity floor and initialization\<close>

text \<open>
  C9. A time-slot update that asks for a \<open>maxCapacity\<close> strictly below the slot's
  \<open>currentBookings\<close> is answered with a 400 and leaves the collection as it was; and if
  every slot has \<open>currentBookings \<le> maxCapacity\<close> before a successful update, every slot
  has it afterwards.
\<close>

theorem updateTimeSlot_capacity_floor:
  assumes "find (\<lambda>s. ts_id s = i) ss = Some timeSlot"
  shows "(m < currentBookings timeSlot \<longrightarrow>
            updateTimeSlot i lbl (Some m) active ss
              = (ss, Inl (BadRequest (''Cannot set capacity lower than current bookings (''
                                        @ show_int (currentBookings timeSlot) @ '')'')))
          \<and> http_status (BadRequest (''Cannot set capacity lower than current bookings (''
                                        @ show_int (currentBookings timeSlot) @ '')'')) = 400)
       \<and> (list_all (\<lambda>s. currentBookings s \<le> maxCapacity s) ss
            \<and> updateTimeSlot i lbl maxCap active ss = (ss', Inr t)
          \<longrightarrow> list_all (\<lambda>s. currentBookings s \<le> maxCapacity s) ss')"
proof (intro conjI impI)
  assume "m < currentBookings timeSlot"
  then show "updateTimeSlot i lbl (Some m) active ss
              = (ss, Inl (BadRequest (''Cannot set capacity lower than current bookings (''
                                        @ show_int (currentBookings timeSlot) @ '')'')))"
    using assms by (simp add: updateTimeSlot_def Let_def split: option.splits)
next
  show "http_status (BadRequest (''Cannot set capacity lower than current bookings (''
                                   @ show_int (currentBookings timeSlot) @ '')'')) = 400"
    by simp
next
  assume a: "list_all (\<lambda>s. currentBookings s \<le> maxCapacity s) ss
             \<and> updateTimeSlot i lbl maxCap active ss = (ss', Inr t)"
  have mem: "timeSlot \<in> set ss" using assms find_Some_holds [of _ ss timeSlot] by simp
  then have old: "currentBookings timeSlot \<le> maxCapacity timeSlot"
    using a by (simp add: list_all_iff)
  have ss': "ss' = updateFirst (\<lambda>s. ts_id s = i) (\<lambda>s. t) ss"
    using a assms by (auto simp: updateTimeSlot_def Let_def split: option.splits if_splits)
  have t: "currentBookings t \<le> maxCapacity t"
    using a assms old by (auto simp: updateTimeSlot_def Let_def split: option.splits if_splits)
  show "list_all (\<lambda>s. currentBookings s \<le> maxCapacity s) ss'"
    using set_updateFirst [of "\<lambda>s. ts_id s = i" "\<lambda>s. t" ss] a t
    unfolding ss' list_all_iff by auto
qed

theorem updateTimeSlot_capacity_floor_witness:
  "updateTimeSlot 1 None (Some 10) None [ex_slot]
     = ([ex_slot], Inl (BadRequest ''Cannot set capacity lower than current bookings (12)''))
   \<and> list_all (\<lambda>s. currentBookings s \<le> maxCapacity s)
        (fst (updateTimeSlot 1 None (Some 20) None [ex_slot]))
   \<and> \<not> isl (snd (updateTimeSlot 1 None (Some 20) None [ex_slot]))"
proof -
  have found: "find (\<lambda>s. ts_id s = 1) [ex_slot] = Some ex_slot"
    by (simp add: ex_slot_def)
  have low: "updateTimeSlot 1 None (Some 10) None [ex_slot]
     = ([ex_slot], Inl (BadRequest ''Cannot set capacity lower than current bookings (12)''))"
    using updateTimeSlot_capacity_floor [OF found, where m = 10 and lbl = None
                                         and active = None]
    by (simp add: ex_slot_def show_int_def show_nat.simps digit_char_def)
  have ok: "\<not> isl (snd (updateTimeSlot 1 None (Some 20) None [ex_slot]))"
    by (simp add: updateTimeSlot_def Let_def validateSlot_def ex_slot_def)
  have "list_all (\<lambda>s. currentBookings s \<le> maxCapacity s) [ex_slot]"
    by (simp add: ex_slot_def)
  then have "list_all (\<lambda>s. currentBookings s \<le> maxCapacity s)
               (fst (updateTimeSlot 1 None (Some 20) None [ex_slot]))"
    using updateTimeSlot_capacity_floor [OF found, where lbl = None and active = None
            and maxCap = "Some 20"
            and ss' = "fst (updateTimeSlot 1 None (Some 20) None [ex_slot])"
            and t = "projr (snd (updateTimeSlot 1 None (Some 20) None [ex_slot]))"]
          succeeded_collapse [OF ok]
    by simp
  then show ?thesis using low ok by simp
qed

lemma initSlotsLoop_stable:
  "findSlot v ss = Some e \<Longrightarrow> v \<notin> slot_value ` set ds
     \<Longrightarrow> findSlot v (fst (initSlotsLoop ds res ss)) = Some e"
proof (induction ds arbitrary: res ss)
  case Nil
  then show ?case by simp
next
  case (Cons d ds)
  then have ne: "slot_value d \<noteq> v" and rest: "v \<notin> slot_value ` set ds" by auto
  show ?case
  proof (cases "findSlot (slot_value d) ss")
    case None
    have "findSlot v (ss @ [y]) = Some e" for y
      using Cons.prems(1) by (simp add: findSlot_def find_append_Some)
    then show ?thesis
      using None Cons.IH [OF _ rest] Cons.prems(1) by (simp add: Let_def)
  next
    case (Some ex)
    then have val: "slot_value ex = slot_value d"
      using find_Some_holds [of "\<lambda>s. slot_value s = slot_value d" ss ex] by (simp add: findSlot_def)
    let ?ex' = "ex \<lparr> maxCapacity := maxCapacity d, currentBookings := currentBookings d \<rparr>"
    have "findSlot v (updateFirst (\<lambda>s. slot_value s = slot_value d) (\<lambda>s. ?ex') ss) = Some e"
      unfolding findSlot_def
      using Cons.prems(1) ne val
      by (subst find_updateFirst_other) (auto simp: findSlot_def)
    then show ?thesis
      using Some Cons.IH [OF _ rest] by (simp add: Let_def)
  qed
qed

lemma initSlotsLoop_idem:
  "distinct (map slot_value ds) \<Longrightarrow>
     fst (initSlotsLoop ds res' (fst (initSlotsLoop ds res ss))) = fst (initSlotsLoop ds res ss)
   \<and> isl (snd (initSlotsLoop ds res' (fst (initSlotsLoop ds res ss))))
       = isl (snd (initSlotsLoop ds res ss))"
proof (induction ds arbitrary: res res' ss)
  case Nil
  then show ?case by simp
next
  case (Cons d ds)
  then have fresh: "slot_value d \<notin> slot_value ` set ds" and dist: "distinct (map slot_value ds)"
    by auto
  let ?P = "\<lambda>s. slot_value s = slot_value d"
  show ?case
  proof (cases "findSlot (slot_value d) ss")
    case None
    show ?thesis
    proof (cases "slotId d \<in> set (map slotId ss)")
      case True
      then show ?thesis using None by simp
    next
      case False
      let ?slot = "d \<lparr> ts_id := freshId (map ts_id ss) \<rparr>"
      let ?F = "fst (initSlotsLoop ds (res @ [?slot]) (ss @ [?slot]))"
      have run: "initSlotsLoop (d # ds) res ss = initSlotsLoop ds (res @ [?slot]) (ss @ [?slot])"
        using None False by (simp add: Let_def)
      have "findSlot (slot_value d) (ss @ [?slot]) = Some ?slot"
        using None by (simp add: findSlot_def find_append_None)
      then have inF: "findSlot (slot_value d) ?F = Some ?slot"
        using initSlotsLoop_stable [OF _ fresh] by simp
      then have "find ?P ?F = Some ?slot" by (simp add: findSlot_def)
      then have same: "updateFirst ?P (\<lambda>s. ?slot) ?F = ?F"
        by (rule updateFirst_same) simp
      have "initSlotsLoop (d # ds) res' ?F = initSlotsLoop ds (res' @ [?slot]) ?F"
        using inF same by (simp add: Let_def)
      then show ?thesis
        using run Cons.IH [OF dist, of "res' @ [?slot]" "res @ [?slot]" "ss @ [?slot]"] by simp
    qed
  next
    case (Some ex)
    let ?ex' = "ex \<lparr> maxCapacity := maxCapacity d, currentBookings := currentBookings d \<rparr>"
    let ?ss1 = "updateFirst ?P (\<lambda>s. ?ex') ss"
    let ?F = "fst (initSlotsLoop ds (res @ [?ex']) ?ss1)"
    have run: "initSlotsLoop (d # ds) res ss = initSlotsLoop ds (res @ [?ex']) ?ss1"
      using Some by (simp add: Let_def)
    have found: "find ?P ss = Some ex" using Some by (simp add: findSlot_def)
    then have "?P ex" using find_Some_holds [of ?P ss ex] by simp
    then have "find ?P ?ss1 = Some ?ex'"
      using find_updateFirst [OF found, of "\<lambda>s. ?ex'"] by simp
    then have inF: "findSlot (slot_value d) ?F = Some ?ex'"
      using initSlotsLoop_stable [OF _ fresh, of ?ss1 ?ex'] by (simp add: findSlot_def)
    then have "find ?P ?F = Some ?ex'" by (simp add: findSlot_def)
    then have same: "updateFirst ?P (\<lambda>s. ?ex') ?F = ?F"
      by (rule updateFirst_same) simp
    have "initSlotsLoop (d # ds) res' ?F = initSlotsLoop ds (res' @ [?ex']) ?F"
      using inF same by (simp add: Let_def)
    then show ?thesis
      using run Cons.IH [OF dist, of "res' @ [?ex']" "res @ [?ex']" ?ss1] by simp
  qed
qed

lemma initSlotsLoop_distinct:
  "distinct (map slot_value ss) \<Longrightarrow> distinct (map slot_value (fst (initSlotsLoop ds res ss)))"
proof (induction ds arbitrary: res ss)
  case Nil
  then show ?case by simp
next
  case (Cons d ds)
  show ?case
  proof (cases "findSlot (slot_value d) ss")
    case None
    then have "slot_value d \<notin> slot_value ` set ss"
      by (auto simp: findSlot_def find_None_iff)
    then have "distinct (map slot_value (ss @ [y \<lparr> ts_id := n \<rparr>]))"
      if "slot_value y = slot_value d" for y n
      using Cons.prems that by simp
    then show ?thesis using None Cons.IH by (simp add: Let_def)
  next
    case (Some ex)
    then have "slot_value ex = slot_value d"
      using find_Some_holds [of "\<lambda>s. slot_value s = slot_value d" ss ex] by (simp add: findSlot_def)
    then have "map slot_value (updateFirst (\<lambda>s. slot_value s = slot_value d)
                 (\<lambda>s. ex \<lparr> maxCapacity := maxCapacity d, currentBookings := currentBookings d \<rparr>) ss)
               = map slot_value ss"
      by (intro map_updateFirst_key) simp
    then show ?thesis using Some Cons.IH Cons.prems by (simp add: Let_def)
  qed
qed

lemma initServicesLoop_stable:
  "find (\<lambda>s. sv_name s = v) svs = Some e \<Longrightarrow> v \<notin> sv_name ` set ds
     \<Longrightarrow> find (\<lambda>s. sv_name s = v) (fst (initServicesLoop ds res svs)) = Some e"
proof (induction ds arbitrary: res svs)
  case Nil
  then show ?case by simp
next
  case (Cons d ds)
  then have ne: "sv_name d \<noteq> v" and rest: "v \<notin> sv_name ` set ds" by auto
  show ?case
  proof (cases "find (\<lambda>s. sv_name s = sv_name d) svs")
    case None
    have "find (\<lambda>s. sv_name s = v) (svs @ [y]) = Some e" for y
      using Cons.prems(1) by (simp add: find_append_Some)
    then show ?thesis
      using None Cons.IH [OF _ rest] by (simp add: Let_def)
  next
    case (Some ex)
    let ?ex' = "ex \<lparr> sv_name := sv_name d, sv_description := sv_description d,
                      sv_price := sv_price d, sv_category := sv_category d \<rparr>"
    have "find (\<lambda>s. sv_name s = v)
            (updateFirst (\<lambda>s. sv_name s = sv_name d) (\<lambda>s. ?ex') svs) = Some e"
      using Cons.prems(1) ne
      by (subst find_updateFirst_other) auto
    then show ?thesis
      using Some Cons.IH [OF _ rest] by (simp add: Let_def)
  qed
qed

lemma initServicesLoop_idem:
  "distinct (map sv_name ds) \<Longrightarrow>
     fst (initServicesLoop ds res' (fst (initServicesLoop ds res svs)))
       = fst (initServicesLoop ds res svs)"
proof (induction ds arbitrary: res res' svs)
  case Nil
  then show ?case by simp
next
  case (Cons d ds)
  then have fresh: "sv_name d \<notin> sv_name ` set ds" and dist: "distinct (map sv_name ds)"
    by auto
  let ?P = "\<lambda>s. sv_name s = sv_name d"
  show ?case
  proof (cases "find ?P svs")
    case None
    let ?sv = "d \<lparr> sv_id := freshId (map sv_id svs) \<rparr>"
    let ?F = "fst (initServicesLoop ds (res @ [?sv]) (svs @ [?sv]))"
    have run: "initServicesLoop (d # ds) res svs = initServicesLoop ds (res @ [?sv]) (svs @ [?sv])"
      using None by (simp add: Let_def)
    have "find ?P (svs @ [?sv]) = Some ?sv"
      using None by (simp add: find_append_None)
    then have inF: "find ?P ?F = Some ?sv"
      using initServicesLoop_stable [OF _ fresh] by simp
    then have same: "updateFirst ?P (\<lambda>s. ?sv) ?F = ?F"
      by (rule updateFirst_same) simp
    have "initServicesLoop (d # ds) res' ?F = initServicesLoop ds (res' @ [?sv]) ?F"
      using inF same by (simp add: Let_def)
    then show ?thesis
      using run Cons.IH [OF dist, of "res' @ [?sv]" "res @ [?sv]" "svs @ [?sv]"] by simp
  next
    case (Some ex)
    let ?ex' = "ex \<lparr> sv_name := sv_name d, sv_description := sv_description d,
                      sv_price := sv_price d, sv_category := sv_category d \<rparr>"
    let ?svs1 = "updateFirst ?P (\<lambda>s. ?ex') svs"
    let ?F = "fst (initServicesLoop ds (res @ [?ex']) ?svs1)"
    have run: "initServicesLoop (d # ds) res svs = initServicesLoop ds (res @ [?ex']) ?svs1"
      using Some by (simp add: Let_def)
    have "find ?P ?svs1 = Some ?ex'"
      using find_updateFirst [OF Some, of "\<lambda>s. ?ex'"] by simp
    then have inF: "find ?P ?F = Some ?ex'"
      using initServicesLoop_stable [OF _ fresh, of ?svs1 ?ex'] by simp
    then have same: "updateFirst ?P (\<lambda>s. ?ex') ?F = ?F"
      by (rule updateFirst_same) simp
    have "initServicesLoop (d # ds) res' ?F = initServicesLoop ds (res' @ [?ex']) ?F"
      using inF same by (simp add: Let_def)
    then show ?thesis
      using run Cons.IH [OF dist, of "res' @ [?ex']" "res @ [?ex']" ?svs1] by simp
  qed
qed

lemma initServicesLoop_distinct:
  "distinct (map sv_name svs) \<Longrightarrow> distinct (map sv_name (fst (initServicesLoop ds res svs)))"
proof (induction ds arbitrary: res svs)
  case Nil
  then show ?case by simp
next
  case (Cons d ds)
  show ?case
  proof (cases "find (\<lambda>s. sv_name s = sv_name d) svs")
    case None
    then have "sv_name d \<notin> sv_name ` set svs"
      by (auto simp: find_None_iff)
    then have "distinct (map sv_name (svs @ [y \<lparr> sv_id := n \<rparr>]))"
      if "sv_name y = sv_name d" for y n
      using Cons.prems that by simp
    then show ?thesis using None Cons.IH by (simp add: Let_def)
  next
    case (Some ex)
    have "map sv_name (updateFirst (\<lambda>s. sv_name s = sv_name d)
                 (\<lambda>s. ex \<lparr> sv_name := sv_name d, sv_description := sv_description d,
                          sv_price := sv_price d, sv_category := sv_category d \<rparr>) svs)
               = map sv_name svs"
      by (intro map_updateFirst_key) simp
    then show ?thesis using Some Cons.IH Cons.prems by (simp add: Let_def)
  qed
qed

lemma fst_initializeServices:
  "fst (initializeServices svs) = fst (initServicesLoop defaultServices [] svs)"
  by (simp add: initializeServices_def split: prod.splits)

text \<open>
  C6. Running an initialization routine on the store its first run left changes nothing:
  the second run of \<open>initializeTimeSlots\<close> returns the same collection, so it adds no
  document and alters no field, and it ends as the first did; the same holds for
  \<open>initializeServices\<close>. A collection with at most one document per business key (slot
  value, service name) still has at most one per key after a run.
\<close>

theorem initialization_idempotent:
  "fst (initializeTimeSlots (fst (initializeTimeSlots ss))) = fst (initializeTimeSlots ss)
   \<and> isl (snd (initializeTimeSlots (fst (initializeTimeSlots ss))))
       = isl (snd (initializeTimeSlots ss))
   \<and> (distinct (map slot_value ss) \<longrightarrow> distinct (map slot_value (fst (initializeTimeSlots ss))))
   \<and> fst (initializeServices (fst (initializeServices svs))) = fst (initializeServices svs)
   \<and> (distinct (map sv_name svs) \<longrightarrow> distinct (map sv_name (fst (initializeServices svs))))"
proof -
  have slots: "distinct (map slot_value defaultSlots)"
    by (simp add: defaultSlots_def)
  have services: "distinct (map sv_name defaultServices)"
    by (simp add: defaultServices_def)
  show ?thesis
    unfolding initializeTimeSlots_def fst_initializeServices
    using initSlotsLoop_idem [OF slots, of "[]" "[]" ss] initSlotsLoop_distinct [of ss defaultSlots "[]"]
          initServicesLoop_idem [OF services, of "[]" "[]" svs]
          initServicesLoop_distinct [of svs defaultServices "[]"]
    by simp
qed

theorem initialization_idempotent_witness:
  "fst (initializeTimeSlots (fst (initializeTimeSlots [ex_slot]))) = fst (initializeTimeSlots [ex_slot])
   \<and> distinct (map slot_value (fst (initializeTimeSlots [ex_slot])))
   \<and> length (fst (initializeTimeSlots [ex_slot])) = 5
   \<and> fst (initializeServices (fst (initializeServices []))) = fst (initializeServices [])
   \<and> distinct (map sv_name (fst (initializeServices [])))"
proof -
  have "length (fst (initializeTimeSlots [ex_slot])) = 5"
    by (simp add: initializeTimeSlots_def defaultSlots_def findSlot_def ex_slot_def Let_def)
  then show ?thesis
    using initialization_idempotent [of "[ex_slot]" "[]"] by simp
qed

section \<open>Overlap of time windows at creation\<close>

text \<open>
  The conference check is inclusive at both ends. A confirmed booking of \<open>hall_a\<close> runs
  from 14 to 15 November; a request for 15 to 17 November starts on the day the booking
  ends, so the half-open test \<open>existing.start < requested.end \<and> existing.end >
  requested.start\<close> finds no intersection, and yet the request is refused as overlapping.
\<close>

theorem conference_overlap_counterexample:
  "conferences ex_conference_db
     = [ex_conference 1 ''hall_a'' ''confirmed'' ''INV-CH-2025-1234'',
        ex_conference 2 ''hall_b'' ''pending'' []]
   \<and> \<not> (startDate (ex_conference 1 ''hall_a'' ''confirmed'' ''INV-CH-2025-1234'') < 1700179200000
        \<and> endDate (ex_conference 1 ''hall_a'' ''confirmed'' ''INV-CH-2025-1234'') > 1700006400000)
   \<and> hallType (ex_conference 2 ''hall_b'' ''pending'' [])
        \<noteq> cq_hallType (ex_conference_request 1700006400000 1700179200000)
   \<and> createBooking_conf acceptAll 1700000000000 2026 42 7
        (ex_conference_request 1700006400000 1700179200000) ex_conference_db
       = (ex_conference_db, Inl (BadRequest ''Hall is already booked for selected dates''))"
  by (simp add: createBooking_conf_def missingFields_def overlappingBookings_def
                ex_conference_request_def ex_conference_db_def ex_conference_def ex_hall_def)

text \<open>
  C4 (amended). A creation request that reaches the overlap check is refused as
  overlapping exactly when an active booking of the same subject intersects the requested
  window: for a hotel reservation (active: \<open>confirmed\<close> or \<open>checked_in\<close>) under the
  half-open test \<open>existing.checkIn < requested.checkOut\<close> and \<open>existing.checkOut >
  requested.checkIn\<close>, so that windows that only touch do not overlap; for a conference
  booking (active: \<open>approved\<close>, \<open>confirmed\<close> or \<open>pending\<close>) under the inclusive test
  \<open>existing.startDate \<le> requested.endDate\<close> and \<open>existing.endDate \<ge>
  requested.startDate\<close>, so that windows that touch do overlap.
\<close>

theorem creation_overlap_tests:
  "(hq_guestName hq \<noteq> [] \<and> hq_phone hq \<noteq> [] \<and> hq_roomType hq \<noteq> []
      \<and> hq_roomNumber hq \<noteq> [] \<and> hq_adults hq \<noteq> 0
      \<and> hq_checkIn hq = Some ci \<and> hq_checkOut hq = Some co
      \<and> find (\<lambda>r. rm_roomNumber r = hq_roomNumber hq) (rooms hdb) = Some room
      \<and> rm_status room = ''available''
    \<longrightarrow> (createReservation hvalidate hnow huser hq hdb
            = (hdb, Inl (BadRequest ''Room is already booked for selected dates''))
         \<longleftrightarrow> (\<exists>r \<in> set (reservations hdb).
                rs_roomNumber r = hq_roomNumber hq
              \<and> (reservationStatus r = ''confirmed'' \<or> reservationStatus r = ''checked_in'')
              \<and> checkIn r < co \<and> checkOut r > ci)))
 \<and> (missingFields cq = []
      \<and> cq_startDate cq = DateAt s \<and> cq_endDate cq = DateAt e \<and> s \<le> e
      \<and> find (\<lambda>h. hall_value h = cq_hallType cq \<and> hall_isActive h) (halls cdb) = Some hall
      \<and> cq_attendees cq = Num n \<and> 1 \<le> n \<and> n \<le> capacity hall
    \<longrightarrow> (createBooking_conf cvalidate cnow year rnd cuser cq cdb
            = (cdb, Inl (BadRequest ''Hall is already booked for selected dates''))
         \<longleftrightarrow> (\<exists>b \<in> set (conferences cdb).
                hallType b = cq_hallType cq
              \<and> (bookingStatus b = ''approved'' \<or> bookingStatus b = ''confirmed''
                  \<or> bookingStatus b = ''pending'')
              \<and> startDate b \<le> e \<and> endDate b \<ge> s)))"
proof (intro conjI impI)
  assume a: "hq_guestName hq \<noteq> [] \<and> hq_phone hq \<noteq> [] \<and> hq_roomType hq \<noteq> []
      \<and> hq_roomNumber hq \<noteq> [] \<and> hq_adults hq \<noteq> 0
      \<and> hq_checkIn hq = Some ci \<and> hq_checkOut hq = Some co
      \<and> find (\<lambda>r. rm_roomNumber r = hq_roomNumber hq) (rooms hdb) = Some room
      \<and> rm_status room = ''available''"
  have "overlappingReservations None (hq_roomNumber hq) ci co (reservations hdb) \<noteq> []
        \<longleftrightarrow> (\<exists>r \<in> set (reservations hdb).
              rs_roomNumber r = hq_roomNumber hq
            \<and> (reservationStatus r = ''confirmed'' \<or> reservationStatus r = ''checked_in'')
            \<and> checkIn r < co \<and> checkOut r > ci)"
    by (auto simp: overlappingReservations_def filter_empty_conv)
  moreover have "createReservation hvalidate hnow huser hq hdb
           = (hdb, Inl (BadRequest ''Room is already booked for selected dates''))
       \<longleftrightarrow> overlappingReservations None (hq_roomNumber hq) ci co (reservations hdb) \<noteq> []"
    using a by (simp add: createReservation_def Let_def split: option.splits)
  ultimately show "createReservation hvalidate hnow huser hq hdb
            = (hdb, Inl (BadRequest ''Room is already booked for selected dates''))
         \<longleftrightarrow> (\<exists>r \<in> set (reservations hdb).
                rs_roomNumber r = hq_roomNumber hq
              \<and> (reservationStatus r = ''confirmed'' \<or> reservationStatus r = ''checked_in'')
              \<and> checkIn r < co \<and> checkOut r > ci)"
    by simp
next
  assume a: "missingFields cq = []
      \<and> cq_startDate cq = DateAt s \<and> cq_endDate cq = DateAt e \<and> s \<le> e
      \<and> find (\<lambda>h. hall_value h = cq_hallType cq \<and> hall_isActive h) (halls cdb) = Some hall
      \<and> cq_attendees cq = Num n \<and> 1 \<le> n \<and> n \<le> capacity hall"
  have "overlappingBookings None [''approved'', ''confirmed'', ''pending''] (cq_hallType cq) s e
          (conferences cdb) \<noteq> []
        \<longleftrightarrow> (\<exists>b \<in> set (conferences cdb).
              hallType b = cq_hallType cq
            \<and> (bookingStatus b = ''approved'' \<or> bookingStatus b = ''confirmed''
                \<or> bookingStatus b = ''pending'')
            \<and> startDate b \<le> e \<and> endDate b \<ge> s)"
    by (auto simp: overlappingBookings_def filter_empty_conv)
  moreover have "createBooking_conf cvalidate cnow year rnd cuser cq cdb
           = (cdb, Inl (BadRequest ''Hall is already booked for selected dates''))
       \<longleftrightarrow> overlappingBookings None [''approved'', ''confirmed'', ''pending''] (cq_hallType cq) s e
          (conferences cdb) \<noteq> []"
    using a
    by (simp add: createBooking_conf_def Let_def split: option.splits num_input.splits)
  ultimately show "createBooking_conf cvalidate cnow year rnd cuser cq cdb
            = (cdb, Inl (BadRequest ''Hall is already booked for selected dates''))
         \<longleftrightarrow> (\<exists>b \<in> set (conferences cdb).
                hallType b = cq_hallType cq
              \<and> (bookingStatus b = ''approved'' \<or> bookingStatus b = ''confirmed''
                  \<or> bookingStatus b = ''pending'')
              \<and> startDate b \<le> e \<and> endDate b \<ge> s)"
    by simp
qed

theorem creation_overlap_tests_witness:
  "createReservation acceptAll 1700000000000 7 (ex_hotel_request 1700006400000 1700179200000)
       (ex_hotel_db ''confirmed'' ''paid'')
     = (ex_hotel_db ''confirmed'' ''paid'',
        Inl (BadRequest ''Room is already booked for selected dates''))
   \<and> createReservation acceptAll 1700000000000 7 (ex_hotel_request 1700092800000 1700179200000)
         (ex_hotel_db ''confirmed'' ''paid'')
       \<noteq> (ex_hotel_db ''confirmed'' ''paid'',
          Inl (BadRequest ''Room is already booked for selected dates''))
   \<and> createBooking_conf acceptAll 1700000000000 2026 42 7
        (ex_conference_request 1700006400000 1700179200000) ex_conference_db
       = (ex_conference_db, Inl (BadRequest ''Hall is already booked for selected dates''))
   \<and> createBooking_conf acceptAll 1700000000000 2026 42 7
        (ex_conference_request 1700092800000 1700179200000) ex_conference_db
       \<noteq> (ex_conference_db, Inl (BadRequest ''Hall is already booked for selected dates''))"
proof -
  have hotel: "createReservation acceptAll 1700000000000 7 (ex_hotel_request from 1700179200000)
                   (ex_hotel_db ''confirmed'' ''paid'')
                 = (ex_hotel_db ''confirmed'' ''paid'',
                    Inl (BadRequest ''Room is already booked for selected dates''))
               \<longleftrightarrow> from < 1700092800000" for "from"
    using creation_overlap_tests
            [where hq = "ex_hotel_request from 1700179200000"
               and hdb = "ex_hotel_db ''confirmed'' ''paid''" and ci = "from"
               and co = 1700179200000 and room = ex_room and hvalidate = acceptAll
               and hnow = 1700000000000 and huser = 7]
    by (simp add: ex_hotel_request_def ex_hotel_db_def ex_room_def ex_reservation_def)
  have conference: "createBooking_conf acceptAll 1700000000000 2026 42 7
                      (ex_conference_request from 1700179200000) ex_conference_db
                     = (ex_conference_db,
                        Inl (BadRequest ''Hall is already booked for selected dates''))
                   \<longleftrightarrow> from \<le> 1700006400000"
    if "from \<le> 1700179200000" for "from"
    using that creation_overlap_tests
            [where cq = "ex_conference_request from 1700179200000"
               and cdb = ex_conference_db and s = "from" and e = 1700179200000
               and hall = ex_hall and n = 30 and cvalidate = acceptAll
               and cnow = 1700000000000 and year = 2026 and rnd = 42 and cuser = 7]
    by (simp add: ex_conference_request_def ex_conference_db_def ex_hall_def ex_conference_def
                  missingFields_def)
  show ?thesis
    using hotel [of 1700006400000] hotel [of 1700092800000]
          conference [of 1700006400000] conference [of 1700092800000]
    by simp
qed

section \<open>Hotel check-out\<close>

text \<open>
  A reservation that is confirmed but not checked in, with its payment still partial, is
  refused check-out by the guard on the reservation status, which comes first: the answer
  is a 400, but not the payment-pending one.
\<close>

theorem checkOut_counterexample:
  "reservations (ex_hotel_db ''confirmed'' ''partial'') = [ex_reservation 1 ''confirmed'' ''partial'']
   \<and> rs_id (ex_reservation 1 ''confirmed'' ''partial'') = 1
   \<and> rs_paymentStatus (ex_reservation 1 ''confirmed'' ''partial'') = ''partial''
   \<and> checkOutGuest 1700100000000 1 (ex_hotel_db ''confirmed'' ''partial'')
       = (ex_hotel_db ''confirmed'' ''partial'',
          Inl (BadRequest ''Only checked-in guests can check out''))
   \<and> checkOutGuest 1700100000000 1 (ex_hotel_db ''confirmed'' ''partial'')
       \<noteq> (ex_hotel_db ''confirmed'' ''partial'', Inl (BadRequest paymentPendingMessage))"
  by (simp add: checkOutGuest_def ex_hotel_db_def ex_reservation_def paymentPendingMessage_def)

text \<open>
  C2 (amended). A check-out request on a reservation whose payment status is \<open>pending\<close>
  or \<open>partial\<close> always fails with a 400 and changes neither the reservation nor the room.
  The 400 is the payment-pending error when the reservation is checked in; for a
  reservation in any other status it is the error that only checked-in guests can check
  out.
\<close>

theorem checkOut_payment_guard:
  assumes "find (\<lambda>r. rs_id r = i) (reservations db) = Some r"
      and "rs_paymentStatus r = ''pending'' \<or> rs_paymentStatus r = ''partial''"
  shows "(\<exists>f. checkOutGuest now i db = (db, Inl f) \<and> http_status f = 400)
       \<and> (reservationStatus r = ''checked_in'' \<longrightarrow>
            checkOutGuest now i db = (db, Inl (BadRequest paymentPendingMessage)))
       \<and> (reservationStatus r \<noteq> ''checked_in'' \<longrightarrow>
            checkOutGuest now i db
              = (db, Inl (BadRequest ''Only checked-in guests can check out'')))"
  using assms by (auto simp: checkOutGuest_def)

theorem checkOut_payment_guard_witness:
  "checkOutGuest 1700100000000 1 (ex_hotel_db ''checked_in'' ''partial'')
     = (ex_hotel_db ''checked_in'' ''partial'', Inl (BadRequest paymentPendingMessage))
   \<and> checkOutGuest 1700100000000 1 (ex_hotel_db ''no_show'' ''pending'')
     = (ex_hotel_db ''no_show'' ''pending'',
        Inl (BadRequest ''Only checked-in guests can check out''))"
proof -
  have found: "find (\<lambda>r. rs_id r = 1) (reservations (ex_hotel_db status payment))
                 = Some (ex_reservation 1 status payment)" for status payment
    by (simp add: ex_hotel_db_def ex_reservation_def)
  show ?thesis
    using checkOut_payment_guard [OF found [of "''checked_in''" "''partial''"],
                                 where now = 1700100000000]
          checkOut_payment_guard [OF found [of "''no_show''" "''pending''"],
                                 where now = 1700100000000]
    by (simp add: ex_reservation_def)
qed

section \<open>Deleting bookings\<close>

text \<open>
  The hotel endpoint deletes a confirmed reservation, and a checked-out one: the call
  succeeds and the reservation is gone.
\<close>

theorem deleteReservation_counterexample:
  "reservations (ex_hotel_db ''confirmed'' ''paid'') = [ex_reservation 1 ''confirmed'' ''paid'']
   \<and> reservationStatus (ex_reservation 1 ''confirmed'' ''paid'') = ''confirmed''
   \<and> snd (deleteReservation 1 (ex_hotel_db ''confirmed'' ''paid'')) = Inr ()
   \<and> reservations (fst (deleteReservation 1 (ex_hotel_db ''confirmed'' ''paid''))) = []
   \<and> snd (deleteReservation 1 (ex_hotel_db ''checked_out'' ''paid'')) = Inr ()
   \<and> reservations (fst (deleteReservation 1 (ex_hotel_db ''checked_out'' ''paid''))) = []"
  by (simp add: deleteReservation_def Let_def overlappingReservations_def
                ex_hotel_db_def ex_reservation_def ex_room_def)

text \<open>
  C5 (amended). A delete request on a conference booking whose status is \<open>confirmed\<close> or
  \<open>completed\<close> is answered with a 400 and the booking stays stored. The hotel and pool
  delete endpoints have no such guard: whatever the status of the reservation or booking
  they find, they succeed and remove that document, the first with the requested id, from
  the collection; where ids are unique, no document with that id is left and every other
  document is kept.
\<close>

theorem delete_terminal_bookings:
  "(find (\<lambda>b. cb_id b = i) (conferences cdb) = Some booking
      \<and> (bookingStatus booking = ''confirmed'' \<or> bookingStatus booking = ''completed'')
    \<longrightarrow> deleteBooking_conf i cdb
            = (cdb, Inl (BadRequest ''Cannot delete confirmed or completed bookings''))
        \<and> http_status (BadRequest ''Cannot delete confirmed or completed bookings'') = 400
        \<and> find (\<lambda>b. cb_id b = i) (conferences (fst (deleteBooking_conf i cdb))) = Some booking)
 \<and> (find (\<lambda>r. rs_id r = j) (reservations hdb) = Some r
    \<longrightarrow> snd (deleteReservation j hdb) = Inr ()
        \<and> reservations (fst (deleteReservation j hdb))
            = removeFirst (\<lambda>r. rs_id r = j) (reservations hdb)
        \<and> Suc (length (reservations (fst (deleteReservation j hdb)))) = length (reservations hdb)
        \<and> (distinct (map rs_id (reservations hdb))
             \<longrightarrow> find (\<lambda>r. rs_id r = j) (reservations (fst (deleteReservation j hdb))) = None
                \<and> set (reservations (fst (deleteReservation j hdb)))
                    = set (reservations hdb) - {r}))
 \<and> (find (\<lambda>b. pb_id b = k) (bookings pdb) = Some pb
    \<longrightarrow> snd (deleteBooking k pdb) = Inr ()
        \<and> bookings (fst (deleteBooking k pdb)) = removeFirst (\<lambda>b. pb_id b = k) (bookings pdb)
        \<and> Suc (length (bookings (fst (deleteBooking k pdb)))) = length (bookings pdb)
        \<and> (distinct (map pb_id (bookings pdb))
             \<longrightarrow> find (\<lambda>b. pb_id b = k) (bookings (fst (deleteBooking k pdb))) = None
                \<and> set (bookings (fst (deleteBooking k pdb))) = set (bookings pdb) - {pb}))"
proof (intro conjI)
  show "find (\<lambda>b. cb_id b = i) (conferences cdb) = Some booking
      \<and> (bookingStatus booking = ''confirmed'' \<or> bookingStatus booking = ''completed'')
    \<longrightarrow> deleteBooking_conf i cdb
            = (cdb, Inl (BadRequest ''Cannot delete confirmed or completed bookings''))
        \<and> http_status (BadRequest ''Cannot delete confirmed or completed bookings'') = 400
        \<and> find (\<lambda>b. cb_id b = i) (conferences (fst (deleteBooking_conf i cdb))) = Some booking"
    by (auto simp: deleteBooking_conf_def)
next
  have removed: "reservations (fst (deleteReservation j hdb))
                   = removeFirst (\<lambda>r. rs_id r = j) (reservations hdb)"
       and succeeds: "snd (deleteReservation j hdb) = Inr ()"
    if "find (\<lambda>r. rs_id r = j) (reservations hdb) = Some r"
    using that by (simp_all add: deleteReservation_def Let_def)
  show "find (\<lambda>r. rs_id r = j) (reservations hdb) = Some r
    \<longrightarrow> snd (deleteReservation j hdb) = Inr ()
        \<and> reservations (fst (deleteReservation j hdb))
            = removeFirst (\<lambda>r. rs_id r = j) (reservations hdb)
        \<and> Suc (length (reservations (fst (deleteReservation j hdb)))) = length (reservations hdb)
        \<and> (distinct (map rs_id (reservations hdb))
             \<longrightarrow> find (\<lambda>r. rs_id r = j) (reservations (fst (deleteReservation j hdb))) = None
                \<and> set (reservations (fst (deleteReservation j hdb)))
                    = set (reservations hdb) - {r})"
    using removed succeeds
    by (simp add: length_removeFirst find_removeFirst_distinct set_removeFirst_distinct)
next
  have removed: "bookings (fst (deleteBooking k pdb))
                   = removeFirst (\<lambda>b. pb_id b = k) (bookings pdb)"
       and succeeds: "snd (deleteBooking k pdb) = Inr ()"
    if "find (\<lambda>b. pb_id b = k) (bookings pdb) = Some pb"
    using that by (simp_all add: deleteBooking_def Let_def)
  show "find (\<lambda>b. pb_id b = k) (bookings pdb) = Some pb
    \<longrightarrow> snd (deleteBooking k pdb) = Inr ()
        \<and> bookings (fst (deleteBooking k pdb)) = removeFirst (\<lambda>b. pb_id b = k) (bookings pdb)
        \<and> Suc (length (bookings (fst (deleteBooking k pdb)))) = length (bookings pdb)
        \<and> (distinct (map pb_id (bookings pdb))
             \<longrightarrow> find (\<lambda>b. pb_id b = k) (bookings (fst (deleteBooking k pdb))) = None
                \<and> set (bookings (fst (deleteBooking k pdb))) = set (bookings pdb) - {pb})"
    using removed succeeds
    by (simp add: length_removeFirst find_removeFirst_distinct set_removeFirst_distinct)
qed

theorem delete_terminal_bookings_witness:
  "deleteBooking_conf 1 ex_conference_db
     = (ex_conference_db, Inl (BadRequest ''Cannot delete confirmed or completed bookings''))
   \<and> reservations (fst (deleteReservation 2 ex_hotel_db_two))
       = [ex_reservation 1 ''checked_out'' ''paid'']
   \<and> find (\<lambda>r. rs_id r = 2) (reservations (fst (deleteReservation 2 ex_hotel_db_two))) = None
   \<and> reservations (fst (deleteReservation 1 ex_hotel_db_two))
       = [ex_reservation 2 ''confirmed'' ''paid'']
   \<and> map pb_id (bookings (fst (deleteBooking 2 ex_pool_db))) = [1, 3, 4, 5]
   \<and> find (\<lambda>b. pb_id b = 2) (bookings (fst (deleteBooking 2 ex_pool_db))) = None"
proof -
  have ids: "rs_id (ex_reservation n s p) = n" "pb_id (ex_pool_booking n m s) = n" for n m s p
    by (simp_all add: ex_reservation_def ex_pool_booking_def)
  have c1: "find (\<lambda>b. cb_id b = 1) (conferences ex_conference_db)
              = Some (ex_conference 1 ''hall_a'' ''confirmed'' ''INV-CH-2025-1234'')"
       and st: "bookingStatus (ex_conference 1 ''hall_a'' ''confirmed'' ''INV-CH-2025-1234'')
                  = ''confirmed''"
    by (simp_all add: ex_conference_db_def ex_conference_def)
  have r2: "find (\<lambda>r. rs_id r = 2) (reservations ex_hotel_db_two)
              = Some (ex_reservation 2 ''confirmed'' ''paid'')"
       and r1: "find (\<lambda>r. rs_id r = 1) (reservations ex_hotel_db_two)
              = Some (ex_reservation 1 ''checked_out'' ''paid'')"
       and rd: "distinct (map rs_id (reservations ex_hotel_db_two))"
       and rest2: "removeFirst (\<lambda>r. rs_id r = 2) (reservations ex_hotel_db_two)
                    = [ex_reservation 1 ''checked_out'' ''paid'']"
       and rest1: "removeFirst (\<lambda>r. rs_id r = 1) (reservations ex_hotel_db_two)
                    = [ex_reservation 2 ''confirmed'' ''paid'']"
    by (simp_all add: ex_hotel_db_two_def ids)
  have p2: "find (\<lambda>b. pb_id b = 2) (bookings ex_pool_db) = Some (ex_pool_booking 2 10 ''paid'')"
       and pd: "distinct (map pb_id (bookings ex_pool_db))"
       and prest: "map pb_id (removeFirst (\<lambda>b. pb_id b = 2) (bookings ex_pool_db)) = [1, 3, 4, 5]"
    by (simp_all add: ex_pool_db_def ids)
  have removed: "deleteBooking_conf 1 ex_conference_db
     = (ex_conference_db, Inl (BadRequest ''Cannot delete confirmed or completed bookings''))
   \<and> reservations (fst (deleteReservation 2 ex_hotel_db_two))
       = removeFirst (\<lambda>r. rs_id r = 2) (reservations ex_hotel_db_two)
   \<and> find (\<lambda>r. rs_id r = 2) (reservations (fst (deleteReservation 2 ex_hotel_db_two))) = None
   \<and> bookings (fst (deleteBooking 2 ex_pool_db))
       = removeFirst (\<lambda>b. pb_id b = 2) (bookings ex_pool_db)
   \<and> find (\<lambda>b. pb_id b = 2) (bookings (fst (deleteBooking 2 ex_pool_db))) = None"
    using delete_terminal_bookings
          [where i = 1 and cdb = ex_conference_db
             and booking = "ex_conference 1 ''hall_a'' ''confirmed'' ''INV-CH-2025-1234''"
             and j = 2 and hdb = ex_hotel_db_two
             and r = "ex_reservation 2 ''confirmed'' ''paid''"
             and k = 2 and pdb = ex_pool_db and pb = "ex_pool_booking 2 10 ''paid''"]
          c1 st r2 rd p2 pd
    by blast
  have two: "deleteBooking_conf 1 ex_conference_db
     = (ex_conference_db, Inl (BadRequest ''Cannot delete confirmed or completed bookings''))
   \<and> reservations (fst (deleteReservation 2 ex_hotel_db_two))
       = [ex_reservation 1 ''checked_out'' ''paid'']
   \<and> find (\<lambda>r. rs_id r = 2) (reservations (fst (deleteReservation 2 ex_hotel_db_two))) = None
   \<and> map pb_id (bookings (fst (deleteBooking 2 ex_pool_db))) = [1, 3, 4, 5]
   \<and> find (\<lambda>b. pb_id b = 2) (bookings (fst (deleteBooking 2 ex_pool_db))) = None"
    using removed rest2 prest by metis
  have one: "reservations (fst (deleteReservation 1 ex_hotel_db_two))
               = [ex_reservation 2 ''confirmed'' ''paid'']"
    using delete_terminal_bookings
          [where j = 1 and hdb = ex_hotel_db_two
             and r = "ex_reservation 1 ''checked_out'' ''paid''"]
          r1 rest1
    by metis
  show ?thesis using two one by blast
qed

section \<open>Conference invoice numbers\<close>

text \<open>
  The status endpoint gives a booking with no invoice number one when it approves it, and
  the booking is then stored as approved. A booking that has an invoice number keeps it
  through every status update and every update of the booking.
\<close>

lemma invoice_kept:
  assumes "find (\<lambda>b. cb_id b = i) (conferences db) = Some booking"
  shows "(invoiceNumber booking = []
            \<and> updateBookingStatus now year rnd user i ''approved'' db = (db', Inr b')
          \<longrightarrow> invoiceNumber b' = newInvoiceNumber year rnd \<and> invoiceNumber b' \<noteq> []
              \<and> bookingStatus b' = ''approved''
              \<and> find (\<lambda>b. cb_id b = i) (conferences db') = Some b')
       \<and> (invoiceNumber booking \<noteq> [] \<or> status \<noteq> ''approved'' \<longrightarrow>
            map_option invoiceNumber
              (find (\<lambda>b. cb_id b = i)
                 (conferences (fst (updateBookingStatus now year rnd user i status db))))
              = Some (invoiceNumber booking))
       \<and> (invoiceNumber booking \<noteq> [] \<or> cu_bookingStatus u \<noteq> ''approved''
            \<or> bookingStatus booking = ''approved'' \<longrightarrow>
            map_option invoiceNumber
              (find (\<lambda>b. cb_id b = i)
                 (conferences (fst (updateBooking_conf validate now year rnd user i u db))))
              = Some (invoiceNumber booking))"
proof -
  let ?P = "\<lambda>b. cb_id b = i"
  have id: "cb_id booking = i" using assms find_Some_holds [of ?P _ booking] by simp
  have upd: "find ?P (updateFirst ?P (\<lambda>b. y) (conferences db)) = Some y" if "cb_id y = i" for y
    using find_updateFirst [OF assms, of "\<lambda>b. y"] that by simp
  have 1: "invoiceNumber b' = newInvoiceNumber year rnd \<and> invoiceNumber b' \<noteq> []
           \<and> bookingStatus b' = ''approved'' \<and> find ?P (conferences db') = Some b'"
    if "invoiceNumber booking = []
        \<and> updateBookingStatus now year rnd user i ''approved'' db = (db', Inr b')"
    using that assms id upd
    by (auto simp: updateBookingStatus_def Let_def newInvoiceNumber_nonempty split: if_splits)
  have 2: "map_option invoiceNumber
              (find ?P (conferences (fst (updateBookingStatus now year rnd user i status db))))
              = Some (invoiceNumber booking)"
    if "invoiceNumber booking \<noteq> [] \<or> status \<noteq> ''approved''"
    using that assms id upd
    by (auto simp: updateBookingStatus_def Let_def split: if_splits)
  have 4: "map_option invoiceNumber
              (find ?P (conferences (fst (updateBooking_conf validate now year rnd user i u db))))
              = Some (invoiceNumber booking)"
    if "invoiceNumber booking \<noteq> [] \<or> cu_bookingStatus u \<noteq> ''approved''
        \<or> bookingStatus booking = ''approved''"
    using that assms id upd
    by (auto simp: updateBooking_conf_def Let_def assignFields_def split: if_splits)
  show ?thesis using 1 2 4 by blast
qed

text \<open>
  C7. A conference booking is to receive its invoice number the first time it reaches the
  status \<open>approved\<close>. The status endpoint does so, and the two other paths that write an
  invoice number do not. \<open>PUT /bookings/:id\<close> with \<open>bookingStatus\<close> \<open>approved\<close> in its
  body runs the block commented \<open>Generate invoice number if booking is being approved\<close>,
  but \<open>bookingStatus\<close> is not among its updatable fields: pending booking 2 comes out
  with the invoice number \<open>INV-CH-2026-1042\<close> and is still pending. When the status
  endpoint then approves it, the first time it reaches \<open>approved\<close>, no number is
  generated: the one it has is kept. \<open>POST /bookings\<close> with \<open>bookingStatus\<close>
  \<open>approved\<close> in its body likewise stores a pending booking with an invoice number.
\<close>

theorem invoice_without_approval:
  "map bookingStatus (conferences ex_conference_db) = [''confirmed'', ''pending'']
   \<and> map invoiceNumber (conferences ex_conference_db) = [''INV-CH-2025-1234'', []]
   \<and> cu_bookingStatus ex_conference_update = ''approved''
   \<and> \<not> isl (snd (updateBooking_conf acceptAll 1700100000000 2026 42 7 2 ex_conference_update
                     ex_conference_db))
   \<and> map bookingStatus
        (conferences (fst (updateBooking_conf acceptAll 1700100000000 2026 42 7 2
                             ex_conference_update ex_conference_db)))
       = [''confirmed'', ''pending'']
   \<and> map invoiceNumber
        (conferences (fst (updateBooking_conf acceptAll 1700100000000 2026 42 7 2
                             ex_conference_update ex_conference_db)))
       = [''INV-CH-2025-1234'', ''INV-CH-2026-1042'']
   \<and> \<not> isl (snd (updateBookingStatus 1700200000000 2026 777 7 2 ''approved''
                     (fst (updateBooking_conf acceptAll 1700100000000 2026 42 7 2
                             ex_conference_update ex_conference_db))))
   \<and> map bookingStatus
        (conferences (fst (updateBookingStatus 1700200000000 2026 777 7 2 ''approved''
                             (fst (updateBooking_conf acceptAll 1700100000000 2026 42 7 2
                                     ex_conference_update ex_conference_db)))))
       = [''confirmed'', ''approved'']
   \<and> map invoiceNumber
        (conferences (fst (updateBookingStatus 1700200000000 2026 777 7 2 ''approved''
                             (fst (updateBooking_conf acceptAll 1700100000000 2026 42 7 2
                                     ex_conference_update ex_conference_db)))))
       = [''INV-CH-2025-1234'', ''INV-CH-2026-1042'']
   \<and> newInvoiceNumber 2026 777 = ''INV-CH-2026-1777''
   \<and> \<not> isl (snd (createBooking_conf acceptAll 1700000000000 2026 42 7
                     ((ex_conference_request 1700092800000 1700179200000)
                        \<lparr> cq_bookingStatus := ''approved'' \<rparr>) ex_conference_db))
   \<and> bookingStatus
        (projr (snd (createBooking_conf acceptAll 1700000000000 2026 42 7
                       ((ex_conference_request 1700092800000 1700179200000)
                          \<lparr> cq_bookingStatus := ''approved'' \<rparr>) ex_conference_db)))
       = ''pending''
   \<and> invoiceNumber
        (projr (snd (createBooking_conf acceptAll 1700000000000 2026 42 7
                       ((ex_conference_request 1700092800000 1700179200000)
                          \<lparr> cq_bookingStatus := ''approved'' \<rparr>) ex_conference_db)))
       = ''INV-CH-2026-1042''"
proof -
  have upd: "updateBooking_conf acceptAll 1700100000000 2026 42 7 2 ex_conference_update
               ex_conference_db
             = (ex_conference_db
                  \<lparr> conferences :=
                      [ex_conference 1 ''hall_a'' ''confirmed'' ''INV-CH-2025-1234'',
                       (ex_conference 2 ''hall_b'' ''pending'' ''INV-CH-2026-1042'')
                         \<lparr> eventName := ''Annual general meeting'', attendees := 45,
                           advancePaid := 100, cb_paymentStatus := ''partial'',
                           approvedBy := Some 7, approvedAt := Some 1700100000000 \<rparr>] \<rparr>,
                Inr ((ex_conference 2 ''hall_b'' ''pending'' ''INV-CH-2026-1042'')
                         \<lparr> eventName := ''Annual general meeting'', attendees := 45,
                           advancePaid := 100, cb_paymentStatus := ''partial'',
                           approvedBy := Some 7, approvedAt := Some 1700100000000 \<rparr>))"
    by (simp add: updateBooking_conf_def assignFields_def castFails_def Let_def acceptAll_def
                  newInvoiceNumber_def show_int_def show_nat.simps digit_char_def
                  ex_conference_db_def ex_conference_def ex_conference_update_def)
  have status: "map bookingStatus (conferences ex_conference_db) = [''confirmed'', ''pending'']
     \<and> map invoiceNumber (conferences ex_conference_db) = [''INV-CH-2025-1234'', []]
     \<and> cu_bookingStatus ex_conference_update = ''approved''"
    by (simp add: ex_conference_db_def ex_conference_def ex_conference_update_def)
  have later: "\<not> isl (snd (updateBookingStatus 1700200000000 2026 777 7 2 ''approved''
                     (fst (updateBooking_conf acceptAll 1700100000000 2026 42 7 2
                             ex_conference_update ex_conference_db))))
   \<and> map bookingStatus
        (conferences (fst (updateBookingStatus 1700200000000 2026 777 7 2 ''approved''
                             (fst (updateBooking_conf acceptAll 1700100000000 2026 42 7 2
                                     ex_conference_update ex_conference_db)))))
       = [''confirmed'', ''approved'']
   \<and> map invoiceNumber
        (conferences (fst (updateBookingStatus 1700200000000 2026 777 7 2 ''approved''
                             (fst (updateBooking_conf acceptAll 1700100000000 2026 42 7 2
                                     ex_conference_update ex_conference_db)))))
       = [''INV-CH-2025-1234'', ''INV-CH-2026-1042'']"
    unfolding upd
    by (simp add: updateBookingStatus_def overlappingBookings_def Let_def
                  ex_conference_db_def ex_conference_def)
  have number: "newInvoiceNumber 2026 777 = ''INV-CH-2026-1777''"
    by (simp add: newInvoiceNumber_def show_int_def show_nat.simps digit_char_def)
  have created: "\<not> isl (snd (createBooking_conf acceptAll 1700000000000 2026 42 7
                     ((ex_conference_request 1700092800000 1700179200000)
                        \<lparr> cq_bookingStatus := ''approved'' \<rparr>) ex_conference_db))
   \<and> bookingStatus
        (projr (snd (createBooking_conf acceptAll 1700000000000 2026 42 7
                       ((ex_conference_request 1700092800000 1700179200000)
                          \<lparr> cq_bookingStatus := ''approved'' \<rparr>) ex_conference_db)))
       = ''pending''
   \<and> invoiceNumber
        (projr (snd (createBooking_conf acceptAll 1700000000000 2026 42 7
                       ((ex_conference_request 1700092800000 1700179200000)
                          \<lparr> cq_bookingStatus := ''approved'' \<rparr>) ex_conference_db)))
       = ''INV-CH-2026-1042''"
    by (simp add: createBooking_conf_def missingFields_def overlappingBookings_def Let_def
                  acceptAll_def freshId_def newInvoiceNumber_def show_int_def show_nat.simps
                  digit_char_def slice_last6_def ex_conference_request_def
                  ex_conference_db_def ex_conference_def ex_hall_def)
  show ?thesis using status later number created by (simp add: upd ex_conference_def)
qed

end
